theory Spec2Isabelle
  imports Complex_Main
begin

section \<open>Domain constants of \<^verbatim>\<open>land_pricing.py\<close>\<close>

text \<open>
  The four constant classes of the source. Python's \<^verbatim>\<open>/\<close> is true division and the
  decimal literals are floats; here every number is an exact real, so all results below
  are statements about the program in exact arithmetic (rounding is outside the model).
  A class attribute \<^verbatim>\<open>C.X\<close> is the constant \<open>C_X\<close>; the tuples \<^verbatim>\<open>BELL_WIDTHS\<close> and
  \<^verbatim>\<open>BELL_CENTERS\<close> are lists, indexed as in the source.
\<close>

definition AreaConstants_P00 :: real where "AreaConstants_P00 = 180"
definition AreaConstants_P20 :: real where "AreaConstants_P20 = 250"
definition AreaConstants_P40 :: real where "AreaConstants_P40 = 300"
definition AreaConstants_P60 :: real where "AreaConstants_P60 = 320"
definition AreaConstants_P80 :: real where "AreaConstants_P80 = 360"
definition AreaConstants_P100 :: real where "AreaConstants_P100 = 455"
definition AreaConstants_MIN :: real where "AreaConstants_MIN = 100"
definition AreaConstants_MAX :: real where "AreaConstants_MAX = 500"
definition AreaConstants_STEP :: real where "AreaConstants_STEP = 1"

definition AreaConstants_BELL_WIDTHS :: "real list" where
  "AreaConstants_BELL_WIDTHS =
     [(AreaConstants_P20 - AreaConstants_P00) / 2,
      (AreaConstants_P40 - AreaConstants_P20) / 2,
      (AreaConstants_P60 - AreaConstants_P40) / 2,
      (AreaConstants_P80 - AreaConstants_P60) / 2,
      (AreaConstants_P100 - AreaConstants_P80) / 2]"

definition AreaConstants_BELL_CENTERS :: "real list" where
  "AreaConstants_BELL_CENTERS =
     [AreaConstants_P00 + AreaConstants_BELL_WIDTHS ! 0,
      AreaConstants_P20 + AreaConstants_BELL_WIDTHS ! 1,
      AreaConstants_P40 + AreaConstants_BELL_WIDTHS ! 2,
      AreaConstants_P60 + AreaConstants_BELL_WIDTHS ! 3,
      AreaConstants_P80 + AreaConstants_BELL_WIDTHS ! 4]"

definition PriceConstants_P00 :: real where "PriceConstants_P00 = 42400"
definition PriceConstants_P20 :: real where "PriceConstants_P20 = 132000"
definition PriceConstants_P40 :: real where "PriceConstants_P40 = 160000"
definition PriceConstants_P60 :: real where "PriceConstants_P60 = 180000"
definition PriceConstants_P80 :: real where "PriceConstants_P80 = 238600"
definition PriceConstants_P100 :: real where "PriceConstants_P100 = 400000"
definition PriceConstants_MIN :: real where "PriceConstants_MIN = 20000"
definition PriceConstants_MAX :: real where "PriceConstants_MAX = 500000"
definition PriceConstants_STEP :: real where "PriceConstants_STEP = 1000"

definition PriceConstants_BELL_WIDTHS :: "real list" where
  "PriceConstants_BELL_WIDTHS =
     [(PriceConstants_P20 - PriceConstants_P00) / 2,
      (PriceConstants_P40 - PriceConstants_P20) / 2,
      (PriceConstants_P60 - PriceConstants_P40) / 2,
      (PriceConstants_P80 - PriceConstants_P60) / 2,
      (PriceConstants_P100 - PriceConstants_P80) / 2]"

definition PriceConstants_BELL_CENTERS :: "real list" where
  "PriceConstants_BELL_CENTERS =
     [PriceConstants_P00 + PriceConstants_BELL_WIDTHS ! 0,
      PriceConstants_P20 + PriceConstants_BELL_WIDTHS ! 1,
      PriceConstants_P40 + PriceConstants_BELL_WIDTHS ! 2,
      PriceConstants_P60 + PriceConstants_BELL_WIDTHS ! 3,
      PriceConstants_P80 + PriceConstants_BELL_WIDTHS ! 4]"

definition DistAveConstants_P00 :: real where "DistAveConstants_P00 = 78 / 100"
definition DistAveConstants_P33 :: real where "DistAveConstants_P33 = 180 / 100"
definition DistAveConstants_P66 :: real where "DistAveConstants_P66 = 191 / 100"
definition DistAveConstants_P100 :: real where "DistAveConstants_P100 = 535 / 100"
definition DistAveConstants_AVERAGE :: real where "DistAveConstants_AVERAGE = 230 / 100"
definition DistAveConstants_MIN :: real where "DistAveConstants_MIN = 60 / 100"
definition DistAveConstants_MAX :: real where "DistAveConstants_MAX = 550 / 100"
definition DistAveConstants_STEP :: real where "DistAveConstants_STEP = 5 / 100"

definition DistAveConstants_BELL_WIDTHS :: "real list" where
  "DistAveConstants_BELL_WIDTHS =
     [(DistAveConstants_P33 - DistAveConstants_P00) / 2,
      (DistAveConstants_P66 - DistAveConstants_P33) / 2,
      (DistAveConstants_P100 - DistAveConstants_P66) / 2]"

definition DistAveConstants_BELL_CENTERS :: "real list" where
  "DistAveConstants_BELL_CENTERS =
     [DistAveConstants_P00 + DistAveConstants_BELL_WIDTHS ! 0,
      DistAveConstants_P33 + DistAveConstants_BELL_WIDTHS ! 1,
      DistAveConstants_P66 + DistAveConstants_BELL_WIDTHS ! 2]"

definition DistBchConstants_P00 :: real where "DistBchConstants_P00 = 30 / 100"
definition DistBchConstants_P33 :: real where "DistBchConstants_P33 = 146 / 100"
definition DistBchConstants_P66 :: real where "DistBchConstants_P66 = 192 / 100"
definition DistBchConstants_P100 :: real where "DistBchConstants_P100 = 690 / 100"
definition DistBchConstants_AVERAGE :: real where "DistBchConstants_AVERAGE = 198 / 100"
definition DistBchConstants_MIN :: real where "DistBchConstants_MIN = 20 / 100"
definition DistBchConstants_MAX :: real where "DistBchConstants_MAX = 700 / 100"
definition DistBchConstants_STEP :: real where "DistBchConstants_STEP = 5 / 100"

definition DistBchConstants_BELL_WIDTHS :: "real list" where
  "DistBchConstants_BELL_WIDTHS =
     [(DistBchConstants_P33 - DistBchConstants_P00) / 2,
      (DistBchConstants_P66 - DistBchConstants_P33) / 2,
      (DistBchConstants_P100 - DistBchConstants_P66) / 2]"

definition DistBchConstants_BELL_CENTERS :: "real list" where
  "DistBchConstants_BELL_CENTERS =
     [DistBchConstants_P00 + DistBchConstants_BELL_WIDTHS ! 0,
      DistBchConstants_P33 + DistBchConstants_BELL_WIDTHS ! 1,
      DistBchConstants_P66 + DistBchConstants_BELL_WIDTHS ! 2]"

text \<open>\<^verbatim>\<open>LandPricing.BELL_SLOPE\<close>.\<close>

definition BELL_SLOPE :: real where "BELL_SLOPE = 3"


section \<open>The fuzzy inference core\<close>

text \<open>
  The source builds its variables, rules and simulation with the library \<^verbatim>\<open>skfuzzy\<close>
  and its grids with \<^verbatim>\<open>numpy\<close>; neither is part of the repository. What the source
  calls is therefore modelled from the specification (sections 3, 4 and 7), and each such
  definition says so. What the source itself fixes (constants, grids' bounds, category
  labels, the assignment of every category with no check of its parameters, the five rule
  trees, the order of the calls in \<^verbatim>\<open>__init__\<close> and \<^verbatim>\<open>_run\<close>) is translated
  from the source.
\<close>

datatype InferenceError = InvalidParameter | UnknownCategory | MissingInput | DegenerateAggregate

record MembershipFunction =
  width :: real
  slope :: real
  center :: real

record LinguisticVariable =
  name :: string
  universe :: "real list"
  categories :: "(string \<times> MembershipFunction) list"

datatype ExpressionTree =
    Term string string
  | And ExpressionTree ExpressionTree
  | Or ExpressionTree ExpressionTree

record Rule =
  antecedent :: ExpressionTree
  consequent :: string

record Model =
  input_vars :: "LinguisticVariable list"
  output_var :: LinguisticVariable
  rules :: "Rule list"

text \<open>
  Modelled from the spec: \<^verbatim>\<open>numpy.arange(start, stop, step)\<close>, the grid of a universe:
  \<open>N = ceil((max - min) / step)\<close> samples \<open>min + i * step\<close>.
\<close>

definition arange :: "real \<Rightarrow> real \<Rightarrow> real \<Rightarrow> real list" where
  "arange start stop step =
     map (\<lambda>i. start + real i * step) [0 ..< nat \<lceil>(stop - start) / step\<rceil>]"

text \<open>
  Modelled from the spec: the generalized bell curve of \<^verbatim>\<open>skfuzzy.gbellmf\<close>,
  \<open>\<mu>(x) = 1 / (1 + |(x - center) / width| ^ (2 * slope))\<close>, at one point
  (\<open>membership\<close>) and sampled over an array (\<open>gbellmf\<close>, with the library's argument
  order: array, width, slope, center). The exponent is a real number, hence \<open>powr\<close>;
  lemma \<open>membership_nat_slope\<close> below gives the form with a natural-number power that
  evaluates. The formula is the spec's and is meant for a positive width and a positive
  slope; with a width of 0 the program divides by zero in floating point, which raises
  nothing, and the value that the formula has there in HOL (where \<open>x / 0 = 0\<close>) is
  not claimed of the program.
\<close>

definition membership :: "MembershipFunction \<Rightarrow> real \<Rightarrow> real" where
  "membership mf x = 1 / (1 + \<bar>(x - center mf) / width mf\<bar> powr (2 * slope mf))"

definition gbellmf :: "real list \<Rightarrow> real \<Rightarrow> real \<Rightarrow> real \<Rightarrow> real list" where
  "gbellmf xs a b c = map (membership \<lparr>width = a, slope = b, center = c\<rparr>) xs"

text \<open>
  Modelled from the spec: the constructor of the spec's \<^verbatim>\<open>MembershipFunction\<close>
  (sections 3 and 7), which accepts a positive width and a positive slope and answers
  \<^verbatim>\<open>InvalidParameter\<close> otherwise. It states what the spec calls valid parameters. The
  program has no such constructor and performs no such check: the construction of the
  program's variables (\<open>set_categories\<close> below) does not go through it.
\<close>

definition new_MembershipFunction :: "real \<Rightarrow> real \<Rightarrow> real \<Rightarrow> InferenceError + MembershipFunction" where
  "new_MembershipFunction a b c =
     (if a \<le> 0 \<or> b \<le> 0 then Inl InvalidParameter
      else Inr \<lparr>width = a, slope = b, center = c\<rparr>)"

text \<open>
  The sequence of assignments \<^verbatim>\<open>var[label] = fuzz.gbellmf(var.universe, a, b, c)\<close>
  that follows the creation of a variable, in the order written. The source passes its
  parameters to \<^verbatim>\<open>fuzz.gbellmf\<close> as they are and checks nothing, so every assignment
  stores a curve, whatever the width and the slope. The curve is kept as its three
  parameters (\<open>sample\<close> below gives the array). Labels are kept in the order of
  assignment (the source never assigns a label twice).
\<close>

fun set_categories ::
  "(string \<times> real \<times> real \<times> real) list \<Rightarrow> (string \<times> MembershipFunction) list" where
  "set_categories [] = []"
| "set_categories ((l, a, b, c) # rest) =
     (l, \<lparr>width = a, slope = b, center = c\<rparr>) # set_categories rest"

text \<open>
  \<^verbatim>\<open>ctrl.Antecedent(universe, name)\<close> or \<^verbatim>\<open>ctrl.Consequent(universe, name)\<close>,
  followed by the assignments of its categories: a linguistic variable of section 3.
\<close>

definition make_variable ::
  "string \<Rightarrow> real list \<Rightarrow> (string \<times> real \<times> real \<times> real) list \<Rightarrow> LinguisticVariable" where
  "make_variable n grid specs = \<lparr>name = n, universe = grid, categories = set_categories specs\<rparr>"

text \<open>
  Modelled from the spec: \<^verbatim>\<open>sample\<close> (section 4.2), the curve of a category sampled
  over the universe of its variable, which is the array that the source computes with
  \<^verbatim>\<open>fuzz.gbellmf(var.universe, a, b, c)\<close>.
\<close>

definition sample :: "LinguisticVariable \<Rightarrow> string \<Rightarrow> InferenceError + (real \<times> real) list" where
  "sample v cat =
     (case map_of (categories v) cat of
        None \<Rightarrow> Inl UnknownCategory
      | Some mf \<Rightarrow> Inr (zip (universe v) (gbellmf (universe v) (width mf) (slope mf) (center mf))))"

text \<open>Modelled from the spec: \<^verbatim>\<open>degree_of\<close> (section 4.2).\<close>

definition degree_of :: "LinguisticVariable \<Rightarrow> string \<Rightarrow> real \<Rightarrow> InferenceError + real" where
  "degree_of v cat x =
     (case map_of (categories v) cat of
        None \<Rightarrow> Inl UnknownCategory
      | Some mf \<Rightarrow> Inr (membership mf x))"

text \<open>A term names its variable; the first variable of that name is the one meant.\<close>

fun find_variable :: "LinguisticVariable list \<Rightarrow> string \<Rightarrow> LinguisticVariable option" where
  "find_variable [] n = None"
| "find_variable (v # vs) n = (if name v = n then Some v else find_variable vs n)"

text \<open>
  Modelled from the spec: firing of an expression tree (section 4.3). The value of the
  input is looked up first (\<^verbatim>\<open>MissingInput\<close>), then the degree; the left operand is
  evaluated before the right one and the first failure is the result.
\<close>

fun fire :: "LinguisticVariable list \<Rightarrow> (string \<rightharpoonup> real) \<Rightarrow> ExpressionTree \<Rightarrow> InferenceError + real" where
  "fire vs a (Term v cat) =
     (case find_variable vs v of
        None \<Rightarrow> Inl UnknownCategory
      | Some var \<Rightarrow>
          (case a v of
             None \<Rightarrow> Inl MissingInput
           | Some x \<Rightarrow> degree_of var cat x))"
| "fire vs a (And l r) =
     (case fire vs a l of
        Inl e \<Rightarrow> Inl e
      | Inr p \<Rightarrow> (case fire vs a r of Inl e \<Rightarrow> Inl e | Inr q \<Rightarrow> Inr (min p q)))"
| "fire vs a (Or l r) =
     (case fire vs a l of
        Inl e \<Rightarrow> Inl e
      | Inr p \<Rightarrow> (case fire vs a r of Inl e \<Rightarrow> Inl e | Inr q \<Rightarrow> Inr (max p q)))"

text \<open>
  Modelled from the spec: a rule may only name categories that exist
  (\<^verbatim>\<open>UnknownCategory\<close> at build time, section 6).
\<close>

fun known_terms :: "LinguisticVariable list \<Rightarrow> ExpressionTree \<Rightarrow> bool" where
  "known_terms vs (Term v cat) =
     (case find_variable vs v of
        None \<Rightarrow> False
      | Some var \<Rightarrow> cat \<in> set (map fst (categories var)))"
| "known_terms vs (And l r) = (known_terms vs l \<and> known_terms vs r)"
| "known_terms vs (Or l r) = (known_terms vs l \<and> known_terms vs r)"

definition known_rule :: "LinguisticVariable list \<Rightarrow> LinguisticVariable \<Rightarrow> Rule \<Rightarrow> bool" where
  "known_rule vs out r =
     (known_terms vs (antecedent r) \<and> consequent r \<in> set (map fst (categories out)))"

text \<open>
  Modelled from the spec: \<^verbatim>\<open>ctrl.ControlSystem(rules)\<close>, the immutable model of
  section 3: the variables and the rules, once every rule is known to refer to existing
  categories.
\<close>

definition ControlSystem ::
  "LinguisticVariable list \<Rightarrow> LinguisticVariable \<Rightarrow> Rule list \<Rightarrow> InferenceError + Model" where
  "ControlSystem vs out rs =
     (if list_all (known_rule vs out) rs then Inr \<lparr>input_vars = vs, output_var = out, rules = rs\<rparr>
      else Inl UnknownCategory)"


subsection \<open>Mamdani inference and centroid defuzzification\<close>

text \<open>
  Modelled from the spec (section 4.4, step 1): the firing strength of every rule, in
  order, paired with the category the rule concludes.
\<close>

fun fire_all ::
  "LinguisticVariable list \<Rightarrow> (string \<rightharpoonup> real) \<Rightarrow> Rule list \<Rightarrow> InferenceError + (string \<times> real) list" where
  "fire_all vs a [] = Inr []"
| "fire_all vs a (r # rs) =
     (case fire vs a (antecedent r) of
        Inl e \<Rightarrow> Inl e
      | Inr s \<Rightarrow>
          (case fire_all vs a rs of
             Inl e \<Rightarrow> Inl e
           | Inr ss \<Rightarrow> Inr ((consequent r, s) # ss)))"

text \<open>
  Modelled from the spec (step 2): the implied strength of a category, accumulated rule
  by rule; \<open>None\<close> for a category that no rule concludes.
\<close>

fun implied_strength :: "(string \<times> real) list \<Rightarrow> string \<Rightarrow> real option" where
  "implied_strength [] cat = None"
| "implied_strength ((l, s) # rest) cat =
     (if l = cat then
        (case implied_strength rest cat of None \<Rightarrow> Some s | Some t \<Rightarrow> Some (max s t))
      else implied_strength rest cat)"

text \<open>
  Modelled from the spec (steps 3 and 4): at a grid point, every concluded category's
  curve clipped at its implied strength, accumulated by max from 0 (a category never
  concluded contributes 0).
\<close>

definition aggregate_at ::
  "(string \<times> MembershipFunction) list \<Rightarrow> (string \<Rightarrow> real option) \<Rightarrow> real \<Rightarrow> real" where
  "aggregate_at cats imp x =
     fold (\<lambda>(l, mf) acc. case imp l of None \<Rightarrow> acc | Some s \<Rightarrow> max acc (min (membership mf x) s))
       cats 0"

text \<open>
  Modelled from the spec: \<^verbatim>\<open>infer\<close> (section 4.4), the aggregate output set sampled
  over the universe of the output variable.
\<close>

definition infer :: "Model \<Rightarrow> (string \<rightharpoonup> real) \<Rightarrow> InferenceError + real list" where
  "infer m a =
     (case fire_all (input_vars m) a (rules m) of
        Inl e \<Rightarrow> Inl e
      | Inr ss \<Rightarrow>
          Inr (map (aggregate_at (categories (output_var m)) (implied_strength ss))
                 (universe (output_var m))))"

text \<open>Modelled from the spec (section 4.5): the discrete centroid.\<close>

definition defuzzify :: "real list \<Rightarrow> real list \<Rightarrow> InferenceError + real" where
  "defuzzify grid agg =
     (if sum_list agg = 0 then Inl DegenerateAggregate
      else Inr (sum_list (map2 (*) grid agg) / sum_list agg))"

text \<open>
  Modelled from the spec: \<^verbatim>\<open>evaluate(model, assignment)\<close> (section 6), inference
  followed by defuzzification.
\<close>

definition evaluate :: "Model \<Rightarrow> (string \<rightharpoonup> real) \<Rightarrow> InferenceError + real" where
  "evaluate m a =
     (case infer m a of
        Inl e \<Rightarrow> Inl e
      | Inr agg \<Rightarrow> defuzzify (universe (output_var m)) agg)"


section \<open>The class \<^verbatim>\<open>LandPricing\<close>\<close>

text \<open>
  \<^verbatim>\<open>create_antecedents\<close> and \<^verbatim>\<open>create_consequent\<close>: the three input variables and
  the output variable, each with its universe and its categories, built from the
  constants above with the slope \<^verbatim>\<open>BELL_SLOPE\<close>.
\<close>

definition create_antecedents ::
  "LinguisticVariable \<times> LinguisticVariable \<times> LinguisticVariable" where
  "create_antecedents =
     (make_variable ''area'' (arange AreaConstants_MIN AreaConstants_MAX AreaConstants_STEP)
        [(''very_small'', AreaConstants_BELL_WIDTHS ! 0, BELL_SLOPE, AreaConstants_BELL_CENTERS ! 0),
         (''small'', AreaConstants_BELL_WIDTHS ! 1, BELL_SLOPE, AreaConstants_BELL_CENTERS ! 1),
         (''medium'', AreaConstants_BELL_WIDTHS ! 2, BELL_SLOPE, AreaConstants_BELL_CENTERS ! 2),
         (''large'', AreaConstants_BELL_WIDTHS ! 3, BELL_SLOPE, AreaConstants_BELL_CENTERS ! 3),
         (''very_large'', AreaConstants_BELL_WIDTHS ! 4, BELL_SLOPE, AreaConstants_BELL_CENTERS ! 4)],
      make_variable ''dist_ave''
        (arange DistAveConstants_MIN DistAveConstants_MAX DistAveConstants_STEP)
        [(''close'', DistAveConstants_BELL_WIDTHS ! 0, BELL_SLOPE, DistAveConstants_BELL_CENTERS ! 0),
         (''moderate'', DistAveConstants_BELL_WIDTHS ! 1, BELL_SLOPE, DistAveConstants_BELL_CENTERS ! 1),
         (''far'', DistAveConstants_BELL_WIDTHS ! 2, BELL_SLOPE, DistAveConstants_BELL_CENTERS ! 2)],
      make_variable ''dist_bch''
        (arange DistBchConstants_MIN DistBchConstants_MAX DistBchConstants_STEP)
        [(''close'', DistBchConstants_BELL_WIDTHS ! 0, BELL_SLOPE, DistBchConstants_BELL_CENTERS ! 0),
         (''moderate'', DistBchConstants_BELL_WIDTHS ! 1, BELL_SLOPE, DistBchConstants_BELL_CENTERS ! 1),
         (''far'', DistBchConstants_BELL_WIDTHS ! 2, BELL_SLOPE, DistBchConstants_BELL_CENTERS ! 2)])"

definition create_consequent :: LinguisticVariable where
  "create_consequent =
     make_variable ''price'' (arange PriceConstants_MIN PriceConstants_MAX PriceConstants_STEP)
       [(''very_low'', PriceConstants_BELL_WIDTHS ! 0, BELL_SLOPE, PriceConstants_BELL_CENTERS ! 0),
        (''low'', PriceConstants_BELL_WIDTHS ! 1, BELL_SLOPE, PriceConstants_BELL_CENTERS ! 1),
        (''medium'', PriceConstants_BELL_WIDTHS ! 2, BELL_SLOPE, PriceConstants_BELL_CENTERS ! 2),
        (''high'', PriceConstants_BELL_WIDTHS ! 3, BELL_SLOPE, PriceConstants_BELL_CENTERS ! 3),
        (''very_high'', PriceConstants_BELL_WIDTHS ! 4, BELL_SLOPE, PriceConstants_BELL_CENTERS ! 4)]"

text \<open>
  The attributes \<^verbatim>\<open>self.area_ant\<close>, \<^verbatim>\<open>self.dist_ave_ant\<close>,
  \<^verbatim>\<open>self.dist_bch_ant\<close> and \<^verbatim>\<open>self.price_con\<close>: the components of what the two
  functions return (lemmas \<open>create_antecedents_value\<close> and \<open>create_consequent_value\<close>
  compute them).
\<close>

definition area_ant :: LinguisticVariable where
  "area_ant = fst create_antecedents"

definition dist_ave_ant :: LinguisticVariable where
  "dist_ave_ant = fst (snd create_antecedents)"

definition dist_bch_ant :: LinguisticVariable where
  "dist_bch_ant = snd (snd create_antecedents)"

definition price_con :: LinguisticVariable where
  "price_con = create_consequent"

text \<open>
  The five rules. In Python \<^verbatim>\<open>&\<close> binds tighter than \<^verbatim>\<open>|\<close> and both associate to the
  left, which fixes the trees of the third and fourth rule.
\<close>

definition get_rules :: "Rule list" where
  "get_rules =
     [\<lparr>antecedent =
          And (Term ''area'' ''very_small'') (Or (Term ''dist_ave'' ''far'') (Term ''dist_bch'' ''far'')),
        consequent = ''very_low''\<rparr>,
      \<lparr>antecedent = Or (Term ''area'' ''small'') (Term ''dist_ave'' ''moderate''),
        consequent = ''low''\<rparr>,
      \<lparr>antecedent =
          Or (Or (Term ''area'' ''medium'') (Term ''dist_ave'' ''close'')) (Term ''dist_bch'' ''close''),
        consequent = ''medium''\<rparr>,
      \<lparr>antecedent =
          Or (Term ''area'' ''large'') (And (Term ''dist_ave'' ''close'') (Term ''dist_bch'' ''close'')),
        consequent = ''high''\<rparr>,
      \<lparr>antecedent =
          And (Term ''area'' ''very_large'') (And (Term ''dist_ave'' ''close'') (Term ''dist_bch'' ''close'')),
        consequent = ''very_high''\<rparr>]"

text \<open>
  The simulation object holds the inputs of the last query and its outputs; the object
  \<^verbatim>\<open>self\<close> holds the model and that one simulation.
\<close>

record Simulation =
  sim_input :: "string \<rightharpoonup> real"
  sim_output :: "string \<rightharpoonup> real"

record LandPricing =
  land_pricing_ctrl :: Model
  land_pricing_sim :: Simulation

text \<open>\<^verbatim>\<open>self.land_pricing_ctrl\<close>, the control system of the five rules.\<close>

definition land_pricing_model :: Model where
  "land_pricing_model = projr (ControlSystem [area_ant, dist_ave_ant, dist_bch_ant] price_con get_rules)"

text \<open>The assignment that \<^verbatim>\<open>_run\<close> stores into a fresh simulation.\<close>

definition query :: "real \<Rightarrow> real \<Rightarrow> real \<Rightarrow> (string \<rightharpoonup> real)" where
  "query area dist_ave dist_bch =
     [''area'' \<mapsto> area, ''dist_ave'' \<mapsto> dist_ave, ''dist_bch'' \<mapsto> dist_bch]"

text \<open>
  The aggregate output set that inference builds for a query on the five-rule model, as a
  function of the price (lemma \<open>fire_all_model\<close> shows that all five rules fire, and
  lemma \<open>evaluate_model_aggregate_query\<close> that this is what is defuzzified).
\<close>

definition price_aggregate :: "real \<Rightarrow> real \<Rightarrow> real \<Rightarrow> real \<Rightarrow> real" where
  "price_aggregate area dist_ave dist_bch =
     aggregate_at (categories price_con)
       (implied_strength
          (projr (fire_all [area_ant, dist_ave_ant, dist_bch_ant]
                    (query area dist_ave dist_bch) get_rules)))"

text \<open>
  The five curves of \<^verbatim>\<open>price_con\<close> (lemma \<open>price_con_value\<close> computes their widths
  and centers from the constants), abbreviated for the bounds on the aggregate.
\<close>

abbreviation mu_very_low :: "real \<Rightarrow> real" where
  "mu_very_low \<equiv> membership \<lparr>width = 44800, slope = 3, center = 87200\<rparr>"
abbreviation mu_low :: "real \<Rightarrow> real" where
  "mu_low \<equiv> membership \<lparr>width = 14000, slope = 3, center = 146000\<rparr>"
abbreviation mu_medium :: "real \<Rightarrow> real" where
  "mu_medium \<equiv> membership \<lparr>width = 10000, slope = 3, center = 170000\<rparr>"
abbreviation mu_high :: "real \<Rightarrow> real" where
  "mu_high \<equiv> membership \<lparr>width = 29300, slope = 3, center = 209300\<rparr>"
abbreviation mu_very_high :: "real \<Rightarrow> real" where
  "mu_very_high \<equiv> membership \<lparr>width = 80700, slope = 3, center = 319300\<rparr>"

text \<open>
  Modelled from the spec: \<^verbatim>\<open>compute()\<close> of the simulation, inference and
  defuzzification (sections 4.4 and 4.5) on the stored inputs; the result is
  stored under the name of the output variable. A failure leaves the stored outputs as
  they were.
\<close>

definition compute :: "Model \<Rightarrow> Simulation \<Rightarrow> (InferenceError + real) \<times> Simulation" where
  "compute m sim =
     (case evaluate m (sim_input sim) of
        Inl e \<Rightarrow> (Inl e, sim)
      | Inr p \<Rightarrow> (Inr p, sim\<lparr>sim_output := (sim_output sim)(name (output_var m) \<mapsto> p)\<rparr>))"

text \<open>
  \<^verbatim>\<open>LandPricing._run\<close> (an Isabelle name cannot start with an underscore): three
  stores into the simulation's inputs, \<^verbatim>\<open>compute()\<close>, and the read of the output.
  The result is paired with the object after the call.
\<close>

definition run_priv ::
  "LandPricing \<Rightarrow> real \<Rightarrow> real \<Rightarrow> real \<Rightarrow> (InferenceError + real) \<times> LandPricing" where
  "run_priv self area dist_ave dist_bch =
     (let sim1 = (land_pricing_sim self)
                   \<lparr>sim_input := (sim_input (land_pricing_sim self))(''area'' \<mapsto> area)\<rparr>;
          sim2 = sim1\<lparr>sim_input := (sim_input sim1)(''dist_ave'' \<mapsto> dist_ave)\<rparr>;
          sim3 = sim2\<lparr>sim_input := (sim_input sim2)(''dist_bch'' \<mapsto> dist_bch)\<rparr>;
          (res, sim4) = compute (land_pricing_ctrl self) sim3
      in (res, self\<lparr>land_pricing_sim := sim4\<rparr>))"

text \<open>\<^verbatim>\<open>LandPricing.run\<close>: \<^verbatim>\<open>_run\<close>, then printing and plotting, which are not modelled.\<close>

definition run ::
  "LandPricing \<Rightarrow> real \<Rightarrow> real \<Rightarrow> real \<Rightarrow> (InferenceError + real) \<times> LandPricing" where
  "run self area dist_ave dist_bch = run_priv self area dist_ave dist_bch"

text \<open>
  \<^verbatim>\<open>plot_area_vs_price\<close>: one \<^verbatim>\<open>_run\<close> for every area of
  \<^verbatim>\<open>np.arange(P00, P100, 1)\<close> at the average distances, on the shared simulation; a
  failing query aborts. The prices are only plotted.
\<close>

fun run_areas :: "LandPricing \<Rightarrow> real list \<Rightarrow> InferenceError + LandPricing" where
  "run_areas self [] = Inr self"
| "run_areas self (area # areas) =
     (case run_priv self area DistAveConstants_AVERAGE DistBchConstants_AVERAGE of
        (Inl e, self') \<Rightarrow> Inl e
      | (Inr p, self') \<Rightarrow> run_areas self' areas)"

definition plot_area_vs_price :: "LandPricing \<Rightarrow> InferenceError + LandPricing" where
  "plot_area_vs_price self = run_areas self (arange AreaConstants_P00 AreaConstants_P100 1)"

text \<open>
  \<^verbatim>\<open>LandPricing.__init__\<close>: the variables, the rules, the control system, a fresh
  simulation, and (among the plots) \<^verbatim>\<open>plot_area_vs_price\<close>, which already queries the
  simulation.
\<close>

definition LandPricing_init :: "InferenceError + LandPricing" where
  "LandPricing_init =
     (case create_antecedents of
        (v_area, v_dist_ave, v_dist_bch) \<Rightarrow>
     (let v_price = create_consequent in
     (case ControlSystem [v_area, v_dist_ave, v_dist_bch] v_price get_rules of
        Inl e \<Rightarrow> Inl e
      | Inr ctrl \<Rightarrow>
          plot_area_vs_price
            \<lparr>land_pricing_ctrl = ctrl,
             land_pricing_sim = \<lparr>sim_input = Map.empty, sim_output = Map.empty\<rparr>\<rparr>)))"


section \<open>Membership functions\<close>

lemma membership_pos: "0 < membership mf x"
  by (simp add: membership_def add_pos_nonneg)

lemma membership_le_one: "membership mf x \<le> 1"
proof -
  have "1 / (1 + t) \<le> 1" if "0 \<le> t" for t :: real
    using that by (simp add: divide_le_eq_1)
  from this [of "\<bar>(x - center mf) / width mf\<bar> powr (2 * slope mf)"]
  show ?thesis unfolding membership_def by simp
qed

lemma membership_center: "membership mf (center mf) = 1"
  by (simp add: membership_def)

lemma membership_symmetric: "membership mf (center mf + d) = membership mf (center mf - d)"
  by (simp add: membership_def)

lemma membership_nat_slope:
  "slope mf = real n \<Longrightarrow> 0 < n \<Longrightarrow>
   membership mf x = 1 / (1 + \<bar>(x - center mf) / width mf\<bar> ^ (2 * n))"
proof -
  assume s: "slope mf = real n" and n: "0 < n"
  have "\<bar>(x - center mf) / width mf\<bar> powr (2 * real n) = \<bar>(x - center mf) / width mf\<bar> powr real (2 * n)"
    by simp
  also have "\<dots> = \<bar>(x - center mf) / width mf\<bar> ^ (2 * n)"
    using n by (intro powr_realpow') simp_all
  finally show ?thesis using s by (simp add: membership_def)
qed

lemma membership_slope3:
  "membership \<lparr>width = a, slope = 3, center = c\<rparr> x = 1 / (1 + ((x - c) / a) ^ 6)"
proof -
  have "\<bar>(x - c) / a\<bar> ^ 6 = ((x - c) / a) ^ 6"
    by (rule power_even_abs) simp
  then show ?thesis
    using membership_nat_slope [of "\<lparr>width = a, slope = 3, center = c\<rparr>" 3 x] by simp
qed

lemma membership_half:
  "a \<noteq> 0 \<Longrightarrow> membership \<lparr>width = a, slope = b, center = c\<rparr> (c - a) = 1 / 2 \<and>
     membership \<lparr>width = a, slope = b, center = c\<rparr> (c + a) = 1 / 2"
  by (simp add: membership_def)

lemmas AreaConstants_defs = AreaConstants_P00_def AreaConstants_P20_def AreaConstants_P40_def
  AreaConstants_P60_def AreaConstants_P80_def AreaConstants_P100_def AreaConstants_MIN_def
  AreaConstants_MAX_def AreaConstants_STEP_def AreaConstants_BELL_WIDTHS_def
  AreaConstants_BELL_CENTERS_def

lemmas PriceConstants_defs = PriceConstants_P00_def PriceConstants_P20_def PriceConstants_P40_def
  PriceConstants_P60_def PriceConstants_P80_def PriceConstants_P100_def PriceConstants_MIN_def
  PriceConstants_MAX_def PriceConstants_STEP_def PriceConstants_BELL_WIDTHS_def
  PriceConstants_BELL_CENTERS_def

lemmas DistAveConstants_defs = DistAveConstants_P00_def DistAveConstants_P33_def
  DistAveConstants_P66_def DistAveConstants_P100_def DistAveConstants_AVERAGE_def
  DistAveConstants_MIN_def DistAveConstants_MAX_def DistAveConstants_STEP_def
  DistAveConstants_BELL_WIDTHS_def DistAveConstants_BELL_CENTERS_def

lemmas DistBchConstants_defs = DistBchConstants_P00_def DistBchConstants_P33_def
  DistBchConstants_P66_def DistBchConstants_P100_def DistBchConstants_AVERAGE_def
  DistBchConstants_MIN_def DistBchConstants_MAX_def DistBchConstants_STEP_def
  DistBchConstants_BELL_WIDTHS_def DistBchConstants_BELL_CENTERS_def

lemma area_widths: "AreaConstants_BELL_WIDTHS = [35, 25, 10, 20, 95 / 2]"
  by (simp add: AreaConstants_defs)
lemma area_centers: "AreaConstants_BELL_CENTERS = [215, 275, 310, 340, 815 / 2]"
  by (simp add: AreaConstants_defs)
lemma price_widths: "PriceConstants_BELL_WIDTHS = [44800, 14000, 10000, 29300, 80700]"
  by (simp add: PriceConstants_defs)
lemma price_centers: "PriceConstants_BELL_CENTERS = [87200, 146000, 170000, 209300, 319300]"
  by (simp add: PriceConstants_defs)
lemma dist_ave_widths: "DistAveConstants_BELL_WIDTHS = [51 / 100, 11 / 200, 172 / 100]"
  by (simp add: DistAveConstants_defs)
lemma dist_ave_centers: "DistAveConstants_BELL_CENTERS = [129 / 100, 371 / 200, 363 / 100]"
  by (simp add: DistAveConstants_defs)
lemma dist_bch_widths: "DistBchConstants_BELL_WIDTHS = [58 / 100, 23 / 100, 249 / 100]"
  by (simp add: DistBchConstants_defs)
lemma dist_bch_centers: "DistBchConstants_BELL_CENTERS = [88 / 100, 169 / 100, 441 / 100]"
  by (simp add: DistBchConstants_defs)

lemma create_antecedents_value:
  "create_antecedents =
     (\<lparr>name = ''area'', universe = arange 100 500 1,
       categories = [(''very_small'', \<lparr>width = 35, slope = 3, center = 215\<rparr>),
                     (''small'', \<lparr>width = 25, slope = 3, center = 275\<rparr>),
                     (''medium'', \<lparr>width = 10, slope = 3, center = 310\<rparr>),
                     (''large'', \<lparr>width = 20, slope = 3, center = 340\<rparr>),
                     (''very_large'', \<lparr>width = 95 / 2, slope = 3, center = 815 / 2\<rparr>)]\<rparr>,
      \<lparr>name = ''dist_ave'', universe = arange (60 / 100) (550 / 100) (5 / 100),
       categories = [(''close'', \<lparr>width = 51 / 100, slope = 3, center = 129 / 100\<rparr>),
                     (''moderate'', \<lparr>width = 11 / 200, slope = 3, center = 371 / 200\<rparr>),
                     (''far'', \<lparr>width = 172 / 100, slope = 3, center = 363 / 100\<rparr>)]\<rparr>,
      \<lparr>name = ''dist_bch'', universe = arange (20 / 100) (700 / 100) (5 / 100),
       categories = [(''close'', \<lparr>width = 58 / 100, slope = 3, center = 88 / 100\<rparr>),
                     (''moderate'', \<lparr>width = 23 / 100, slope = 3, center = 169 / 100\<rparr>),
                     (''far'', \<lparr>width = 249 / 100, slope = 3, center = 441 / 100\<rparr>)]\<rparr>)"
  by (simp add: create_antecedents_def make_variable_def BELL_SLOPE_def
      area_widths area_centers dist_ave_widths dist_ave_centers dist_bch_widths dist_bch_centers
      AreaConstants_MIN_def AreaConstants_MAX_def AreaConstants_STEP_def
      DistAveConstants_MIN_def DistAveConstants_MAX_def DistAveConstants_STEP_def
      DistBchConstants_MIN_def DistBchConstants_MAX_def DistBchConstants_STEP_def)

lemma create_consequent_value:
  "create_consequent =
     \<lparr>name = ''price'', universe = arange 20000 500000 1000,
       categories = [(''very_low'', \<lparr>width = 44800, slope = 3, center = 87200\<rparr>),
                     (''low'', \<lparr>width = 14000, slope = 3, center = 146000\<rparr>),
                     (''medium'', \<lparr>width = 10000, slope = 3, center = 170000\<rparr>),
                     (''high'', \<lparr>width = 29300, slope = 3, center = 209300\<rparr>),
                     (''very_high'', \<lparr>width = 80700, slope = 3, center = 319300\<rparr>)]\<rparr>"
  by (simp add: create_consequent_def make_variable_def BELL_SLOPE_def
      price_widths price_centers PriceConstants_MIN_def PriceConstants_MAX_def PriceConstants_STEP_def)

lemma area_ant_value:
  "area_ant = \<lparr>name = ''area'', universe = arange 100 500 1,
       categories = [(''very_small'', \<lparr>width = 35, slope = 3, center = 215\<rparr>),
                     (''small'', \<lparr>width = 25, slope = 3, center = 275\<rparr>),
                     (''medium'', \<lparr>width = 10, slope = 3, center = 310\<rparr>),
                     (''large'', \<lparr>width = 20, slope = 3, center = 340\<rparr>),
                     (''very_large'', \<lparr>width = 95 / 2, slope = 3, center = 815 / 2\<rparr>)]\<rparr>"
  by (simp add: area_ant_def create_antecedents_value)

lemma dist_ave_ant_value:
  "dist_ave_ant = \<lparr>name = ''dist_ave'', universe = arange (60 / 100) (550 / 100) (5 / 100),
       categories = [(''close'', \<lparr>width = 51 / 100, slope = 3, center = 129 / 100\<rparr>),
                     (''moderate'', \<lparr>width = 11 / 200, slope = 3, center = 371 / 200\<rparr>),
                     (''far'', \<lparr>width = 172 / 100, slope = 3, center = 363 / 100\<rparr>)]\<rparr>"
  by (simp add: dist_ave_ant_def create_antecedents_value)

lemma dist_bch_ant_value:
  "dist_bch_ant = \<lparr>name = ''dist_bch'', universe = arange (20 / 100) (700 / 100) (5 / 100),
       categories = [(''close'', \<lparr>width = 58 / 100, slope = 3, center = 88 / 100\<rparr>),
                     (''moderate'', \<lparr>width = 23 / 100, slope = 3, center = 169 / 100\<rparr>),
                     (''far'', \<lparr>width = 249 / 100, slope = 3, center = 441 / 100\<rparr>)]\<rparr>"
  by (simp add: dist_bch_ant_def create_antecedents_value)

lemma price_con_value:
  "price_con = \<lparr>name = ''price'', universe = arange 20000 500000 1000,
       categories = [(''very_low'', \<lparr>width = 44800, slope = 3, center = 87200\<rparr>),
                     (''low'', \<lparr>width = 14000, slope = 3, center = 146000\<rparr>),
                     (''medium'', \<lparr>width = 10000, slope = 3, center = 170000\<rparr>),
                     (''high'', \<lparr>width = 29300, slope = 3, center = 209300\<rparr>),
                     (''very_high'', \<lparr>width = 80700, slope = 3, center = 319300\<rparr>)]\<rparr>"
  by (simp add: price_con_def create_consequent_value)

lemma land_pricing_model_value:
  "ControlSystem [area_ant, dist_ave_ant, dist_bch_ant] price_con get_rules = Inr land_pricing_model"
  "land_pricing_model =
     \<lparr>input_vars = [area_ant, dist_ave_ant, dist_bch_ant], output_var = price_con, rules = get_rules\<rparr>"
  by (simp_all add: land_pricing_model_def ControlSystem_def known_rule_def get_rules_def
      area_ant_value dist_ave_ant_value dist_bch_ant_value price_con_value)

lemma half_area:
  "degree_of area_ant ''very_small'' AreaConstants_P00 = Inr (1 / 2)"
  "degree_of area_ant ''very_small'' AreaConstants_P20 = Inr (1 / 2)"
  "degree_of area_ant ''small'' AreaConstants_P20 = Inr (1 / 2)"
  "degree_of area_ant ''small'' AreaConstants_P40 = Inr (1 / 2)"
  "degree_of area_ant ''medium'' AreaConstants_P40 = Inr (1 / 2)"
  "degree_of area_ant ''medium'' AreaConstants_P60 = Inr (1 / 2)"
  "degree_of area_ant ''large'' AreaConstants_P60 = Inr (1 / 2)"
  "degree_of area_ant ''large'' AreaConstants_P80 = Inr (1 / 2)"
  "degree_of area_ant ''very_large'' AreaConstants_P80 = Inr (1 / 2)"
  "degree_of area_ant ''very_large'' AreaConstants_P100 = Inr (1 / 2)"
  by (simp_all add: degree_of_def area_ant_value membership_def AreaConstants_defs)

lemma half_dist_ave:
  "degree_of dist_ave_ant ''close'' DistAveConstants_P00 = Inr (1 / 2)"
  "degree_of dist_ave_ant ''close'' DistAveConstants_P33 = Inr (1 / 2)"
  "degree_of dist_ave_ant ''moderate'' DistAveConstants_P33 = Inr (1 / 2)"
  "degree_of dist_ave_ant ''moderate'' DistAveConstants_P66 = Inr (1 / 2)"
  "degree_of dist_ave_ant ''far'' DistAveConstants_P66 = Inr (1 / 2)"
  "degree_of dist_ave_ant ''far'' DistAveConstants_P100 = Inr (1 / 2)"
  by (simp_all add: degree_of_def dist_ave_ant_value membership_def DistAveConstants_defs)

lemma half_dist_bch:
  "degree_of dist_bch_ant ''close'' DistBchConstants_P00 = Inr (1 / 2)"
  "degree_of dist_bch_ant ''close'' DistBchConstants_P33 = Inr (1 / 2)"
  "degree_of dist_bch_ant ''moderate'' DistBchConstants_P33 = Inr (1 / 2)"
  "degree_of dist_bch_ant ''moderate'' DistBchConstants_P66 = Inr (1 / 2)"
  "degree_of dist_bch_ant ''far'' DistBchConstants_P66 = Inr (1 / 2)"
  "degree_of dist_bch_ant ''far'' DistBchConstants_P100 = Inr (1 / 2)"
  by (simp_all add: degree_of_def dist_bch_ant_value membership_def DistBchConstants_defs)

lemma half_price:
  "degree_of price_con ''very_low'' PriceConstants_P00 = Inr (1 / 2)"
  "degree_of price_con ''very_low'' PriceConstants_P20 = Inr (1 / 2)"
  "degree_of price_con ''low'' PriceConstants_P20 = Inr (1 / 2)"
  "degree_of price_con ''low'' PriceConstants_P40 = Inr (1 / 2)"
  "degree_of price_con ''medium'' PriceConstants_P40 = Inr (1 / 2)"
  "degree_of price_con ''medium'' PriceConstants_P60 = Inr (1 / 2)"
  "degree_of price_con ''high'' PriceConstants_P60 = Inr (1 / 2)"
  "degree_of price_con ''high'' PriceConstants_P80 = Inr (1 / 2)"
  "degree_of price_con ''very_high'' PriceConstants_P80 = Inr (1 / 2)"
  "degree_of price_con ''very_high'' PriceConstants_P100 = Inr (1 / 2)"
  by (simp_all add: degree_of_def price_con_value membership_def PriceConstants_defs)

lemma model_parameters_valid:
  "list_all (\<lambda>(l, mf). 0 < width mf \<and> 0 < slope mf)
     (categories area_ant @ categories dist_ave_ant @ categories dist_bch_ant @ categories price_con)"
  by (simp add: area_ant_value dist_ave_ant_value dist_bch_ant_value price_con_value)

text \<open>
  Claim C6. A membership function with width \<open>a > 0\<close>, slope \<open>b > 0\<close> and center \<open>c\<close>
  is accepted by the constructor and computes
  \<open>\<mu>(x) = 1 / (1 + |(x - c) / a| ^ (2 * b))\<close>; its value at the center is 1 and it is
  symmetric about the center, \<open>\<mu>(c + d) = \<mu>(c - d)\<close> for every \<open>d\<close>. Every category of the
  four variables of the model has such parameters (positive width, slope 3).
\<close>

theorem membership_bell_shape:
  "0 < a \<Longrightarrow> 0 < b \<Longrightarrow>
   new_MembershipFunction a b c = Inr \<lparr>width = a, slope = b, center = c\<rparr> \<and>
   membership \<lparr>width = a, slope = b, center = c\<rparr> x = 1 / (1 + \<bar>(x - c) / a\<bar> powr (2 * b)) \<and>
   membership \<lparr>width = a, slope = b, center = c\<rparr> c = 1 \<and>
   membership \<lparr>width = a, slope = b, center = c\<rparr> (c + d) =
     membership \<lparr>width = a, slope = b, center = c\<rparr> (c - d) \<and>
   list_all (\<lambda>(l, mf). 0 < width mf \<and> 0 < slope mf)
     (categories area_ant @ categories dist_ave_ant @ categories dist_bch_ant @ categories price_con)"
proof -
  assume a: "0 < a" and b: "0 < b"
  let ?mf = "\<lparr>width = a, slope = b, center = c\<rparr>"
  have "new_MembershipFunction a b c = Inr ?mf"
    using a b by (simp add: new_MembershipFunction_def)
  moreover have "membership ?mf x = 1 / (1 + \<bar>(x - c) / a\<bar> powr (2 * b))"
    by (simp add: membership_def)
  moreover have "membership ?mf c = 1"
    using membership_center [of ?mf] by simp
  moreover have "membership ?mf (c + d) = membership ?mf (c - d)"
    using membership_symmetric [of ?mf d] by simp
  ultimately show ?thesis
    using model_parameters_valid by blast
qed

theorem membership_bell_shape_witness:
  "(0::real) < 95 / 2 \<and> (0::real) < 3 \<and>
   new_MembershipFunction (95 / 2) 3 (815 / 2) = Inr \<lparr>width = 95 / 2, slope = 3, center = 815 / 2\<rparr> \<and>
   membership \<lparr>width = 95 / 2, slope = 3, center = 815 / 2\<rparr> (815 / 2) = 1 \<and>
   membership \<lparr>width = 95 / 2, slope = 3, center = 815 / 2\<rparr> (815 / 2 + 95 / 2) =
     membership \<lparr>width = 95 / 2, slope = 3, center = 815 / 2\<rparr> (815 / 2 - 95 / 2)"
proof -
  have a: "(0::real) < 95 / 2" and b: "(0::real) < 3" by simp_all
  show ?thesis
    using a b membership_bell_shape [OF a b, of "815 / 2" 0 "95 / 2"] by blast
qed

text \<open>
  Claim C9. Every category's center is the midpoint of its two delimiting breakpoints and
  its width is half their distance, so in exact arithmetic the degree of each category at
  either of its breakpoints is exactly \<open>1/2\<close> (and so never 1): for instance area 455 in
  very_large, area 180 in very_small, price 400000 in very_high.
\<close>

theorem degree_at_breakpoints_is_half:
  "degree_of area_ant ''very_small'' AreaConstants_P00 = Inr (1 / 2) \<and>
   degree_of area_ant ''very_small'' AreaConstants_P20 = Inr (1 / 2) \<and>
   degree_of area_ant ''small'' AreaConstants_P20 = Inr (1 / 2) \<and>
   degree_of area_ant ''small'' AreaConstants_P40 = Inr (1 / 2) \<and>
   degree_of area_ant ''medium'' AreaConstants_P40 = Inr (1 / 2) \<and>
   degree_of area_ant ''medium'' AreaConstants_P60 = Inr (1 / 2) \<and>
   degree_of area_ant ''large'' AreaConstants_P60 = Inr (1 / 2) \<and>
   degree_of area_ant ''large'' AreaConstants_P80 = Inr (1 / 2) \<and>
   degree_of area_ant ''very_large'' AreaConstants_P80 = Inr (1 / 2) \<and>
   degree_of area_ant ''very_large'' AreaConstants_P100 = Inr (1 / 2) \<and>
   degree_of dist_ave_ant ''close'' DistAveConstants_P00 = Inr (1 / 2) \<and>
   degree_of dist_ave_ant ''close'' DistAveConstants_P33 = Inr (1 / 2) \<and>
   degree_of dist_ave_ant ''moderate'' DistAveConstants_P33 = Inr (1 / 2) \<and>
   degree_of dist_ave_ant ''moderate'' DistAveConstants_P66 = Inr (1 / 2) \<and>
   degree_of dist_ave_ant ''far'' DistAveConstants_P66 = Inr (1 / 2) \<and>
   degree_of dist_ave_ant ''far'' DistAveConstants_P100 = Inr (1 / 2) \<and>
   degree_of dist_bch_ant ''close'' DistBchConstants_P00 = Inr (1 / 2) \<and>
   degree_of dist_bch_ant ''close'' DistBchConstants_P33 = Inr (1 / 2) \<and>
   degree_of dist_bch_ant ''moderate'' DistBchConstants_P33 = Inr (1 / 2) \<and>
   degree_of dist_bch_ant ''moderate'' DistBchConstants_P66 = Inr (1 / 2) \<and>
   degree_of dist_bch_ant ''far'' DistBchConstants_P66 = Inr (1 / 2) \<and>
   degree_of dist_bch_ant ''far'' DistBchConstants_P100 = Inr (1 / 2) \<and>
   degree_of price_con ''very_low'' PriceConstants_P00 = Inr (1 / 2) \<and>
   degree_of price_con ''very_low'' PriceConstants_P20 = Inr (1 / 2) \<and>
   degree_of price_con ''low'' PriceConstants_P20 = Inr (1 / 2) \<and>
   degree_of price_con ''low'' PriceConstants_P40 = Inr (1 / 2) \<and>
   degree_of price_con ''medium'' PriceConstants_P40 = Inr (1 / 2) \<and>
   degree_of price_con ''medium'' PriceConstants_P60 = Inr (1 / 2) \<and>
   degree_of price_con ''high'' PriceConstants_P60 = Inr (1 / 2) \<and>
   degree_of price_con ''high'' PriceConstants_P80 = Inr (1 / 2) \<and>
   degree_of price_con ''very_high'' PriceConstants_P80 = Inr (1 / 2) \<and>
   degree_of price_con ''very_high'' PriceConstants_P100 = Inr (1 / 2)"
  by (simp only: half_area half_dist_ave half_dist_bch half_price simp_thms)

section \<open>Rule expressions\<close>

lemma degree_of_range: "degree_of v cat x = Inr p \<Longrightarrow> 0 < p \<and> p \<le> 1"
  by (auto simp: degree_of_def membership_pos membership_le_one split: option.splits)

lemma fire_range: "fire vs a e = Inr p \<Longrightarrow> 0 < p \<and> p \<le> 1"
proof (induction e arbitrary: p)
  case (Term v cat)
  then show ?case
    by (auto split: option.splits dest: degree_of_range)
next
  case (And l r)
  then show ?case
    by (fastforce split: sum.splits)
next
  case (Or l r)
  then show ?case
    by (fastforce split: sum.splits)
qed

lemma fire_all_range:
  "fire_all vs a rs = Inr ss \<Longrightarrow> (l, s) \<in> set ss \<Longrightarrow> 0 < s \<and> s \<le> 1"
proof (induction rs arbitrary: ss)
  case Nil
  then show ?case by simp
next
  case (Cons r rs)
  then show ?case
    by (auto split: sum.splits dest: fire_range)
qed

lemma fire_all_labels:
  "fire_all vs a rs = Inr ss \<Longrightarrow> map fst ss = map consequent rs"
  by (induction rs arbitrary: ss) (auto split: sum.splits)

text \<open>
  Claim C2. For every assignment, the strength of an AND node is the minimum of the
  strengths of its two children and that of an OR node is their maximum (Zadeh's
  operators); this holds at every pair of strengths, so also where both are 0 or both
  are 1.
\<close>

theorem fire_zadeh:
  "fire vs a l = Inr p \<Longrightarrow> fire vs a r = Inr q \<Longrightarrow>
   fire vs a (And l r) = Inr (min p q) \<and> fire vs a (Or l r) = Inr (max p q)"
  by simp

lemma names_model:
  "name area_ant = ''area''" "name dist_ave_ant = ''dist_ave''" "name dist_bch_ant = ''dist_bch''"
  "name price_con = ''price''"
  by (simp_all add: area_ant_value dist_ave_ant_value dist_bch_ant_value price_con_value)

lemma find_variable_model:
  "find_variable [area_ant, dist_ave_ant, dist_bch_ant] ''area'' = Some area_ant"
  "find_variable [area_ant, dist_ave_ant, dist_bch_ant] ''dist_ave'' = Some dist_ave_ant"
  "find_variable [area_ant, dist_ave_ant, dist_bch_ant] ''dist_bch'' = Some dist_bch_ant"
  by (simp_all add: names_model)

lemma fire_term_model:
  "fire [area_ant, dist_ave_ant, dist_bch_ant] (query x y z) (Term ''area'' cat) = degree_of area_ant cat x"
  "fire [area_ant, dist_ave_ant, dist_bch_ant] (query x y z) (Term ''dist_ave'' cat) = degree_of dist_ave_ant cat y"
  "fire [area_ant, dist_ave_ant, dist_bch_ant] (query x y z) (Term ''dist_bch'' cat) = degree_of dist_bch_ant cat z"
  by (simp_all add: names_model query_def)

theorem fire_zadeh_witness:
  "fire [area_ant, dist_ave_ant, dist_bch_ant] (query 215 (129 / 100) (88 / 100))
     (Term ''area'' ''very_small'') = Inr 1 \<and>
   fire [area_ant, dist_ave_ant, dist_bch_ant] (query 215 (129 / 100) (88 / 100))
     (Term ''dist_ave'' ''close'') = Inr 1 \<and>
   fire [area_ant, dist_ave_ant, dist_bch_ant] (query 215 (129 / 100) (88 / 100))
     (And (Term ''area'' ''very_small'') (Term ''dist_ave'' ''close'')) = Inr 1 \<and>
   fire [area_ant, dist_ave_ant, dist_bch_ant] (query 215 (129 / 100) (88 / 100))
     (Or (Term ''area'' ''very_small'') (Term ''dist_ave'' ''close'')) = Inr 1"
proof -
  let ?vs = "[area_ant, dist_ave_ant, dist_bch_ant]"
  let ?a = "query 215 (129 / 100) (88 / 100)"
  have l: "fire ?vs ?a (Term ''area'' ''very_small'') = Inr 1"
    unfolding fire_term_model by (simp add: degree_of_def area_ant_value membership_def)
  have r: "fire ?vs ?a (Term ''dist_ave'' ''close'') = Inr 1"
    unfolding fire_term_model by (simp add: degree_of_def dist_ave_ant_value membership_def)
  from fire_zadeh [OF l r] l r show ?thesis by simp
qed

section \<open>Aggregation\<close>

lemma implied_strength_Max:
  "implied_strength ss cat =
     (if cat \<in> fst ` set ss then Some (Max {s. (cat, s) \<in> set ss}) else None)"
proof (induction ss)
  case Nil
  then show ?case by simp
next
  case (Cons p ss)
  obtain l s where p: "p = (l, s)" by (cases p)
  let ?R = "{t. (cat, t) \<in> set ss}"
  have fin: "finite ?R"
    by (rule finite_subset [of _ "snd ` set ss"]) force+
  show ?case
  proof (cases "l = cat")
    case False
    then show ?thesis using Cons p by (auto simp: image_iff)
  next
    case True
    have eq: "{t. (cat, t) \<in> set (p # ss)} = insert s ?R"
      using True p by auto
    show ?thesis
    proof (cases "cat \<in> fst ` set ss")
      case False
      then have "?R = {}" by force
      then show ?thesis using Cons True p False eq by simp
    next
      case in_rest: True
      then have ne: "?R \<noteq> {}" by force
      have "Max (insert s ?R) = max s (Max ?R)"
        using fin ne by (rule Max_insert)
      then show ?thesis using Cons True p in_rest eq by simp
    qed
  qed
qed

lemma Max_insert_max:
  "finite A \<Longrightarrow> Max (insert (max a b) A) = Max (insert a (insert b A))" for a b :: real
  by (cases "A = {}") (simp_all add: max.assoc)

lemma implied_concluded: "(implied_strength ss l \<noteq> None) = (l \<in> fst ` set ss)"
  by (simp add: implied_strength_Max)

lemma fold_clip_Max:
  "fold (\<lambda>(l, mf) acc. case imp l of None \<Rightarrow> acc | Some s \<Rightarrow> max acc (min (membership mf x) s))
     cats acc =
   Max (insert acc ((\<lambda>(l, mf). min (membership mf x) (the (imp l))) `
                      set (filter (\<lambda>(l, mf). imp l \<noteq> None) cats)))"
proof (induction cats arbitrary: acc)
  case Nil
  then show ?case by simp
next
  case (Cons c cats)
  obtain l mf where c: "c = (l, mf)" by (cases c)
  let ?g = "\<lambda>(l, mf). min (membership mf x) (the (imp l))"
  let ?S = "?g ` set (filter (\<lambda>(l, mf). imp l \<noteq> None) cats)"
  have fin: "finite ?S" by simp
  show ?case
  proof (cases "imp l")
    case None
    then show ?thesis using Cons c by simp
  next
    case (Some s)
    then have img: "?g ` set (filter (\<lambda>(l, mf). imp l \<noteq> None) (c # cats)) =
               insert (min (membership mf x) s) ?S"
      using c by simp
    have "Max (insert (max acc (min (membership mf x) s)) ?S) =
          Max (insert acc (insert (min (membership mf x) s) ?S))"
      using fin by (rule Max_insert_max)
    then show ?thesis using Cons Some c img by simp
  qed
qed

lemma aggregate_at_Max:
  "aggregate_at cats imp x =
   Max (insert 0 ((\<lambda>(l, mf). min (membership mf x) (the (imp l))) `
                      set (filter (\<lambda>(l, mf). imp l \<noteq> None) cats)))"
  unfolding aggregate_at_def by (rule fold_clip_Max)

lemma aggregate_at_nonneg: "0 \<le> aggregate_at cats imp x"
  unfolding aggregate_at_Max by (rule Max_ge) simp_all

lemma aggregate_at_le_one: "aggregate_at cats imp x \<le> 1"
proof -
  have "min (membership mf x) s \<le> 1" for mf s
    using membership_le_one [of mf x] by simp
  then show ?thesis
    unfolding aggregate_at_Max by (subst Max_le_iff) auto
qed

lemma strengths_finite: "finite {s. (l, s) \<in> set ss}"
  by (rule finite_subset [of _ "snd ` set ss"]) force+

lemma aggregate_at_concluded:
  assumes nonneg: "\<And>l s. (l, s) \<in> set ss \<Longrightarrow> 0 \<le> s"
      and ex: "set (filter (\<lambda>(l, mf). l \<in> fst ` set ss) cats) \<noteq> {}"
  shows "aggregate_at cats (implied_strength ss) x =
         Max ((\<lambda>(l, mf). min (membership mf x) (Max {s. (l, s) \<in> set ss})) `
                set (filter (\<lambda>(l, mf). l \<in> fst ` set ss) cats))"
proof -
  let ?C = "set (filter (\<lambda>(l, mf). l \<in> fst ` set ss) cats)"
  let ?g = "\<lambda>(l, mf). min (membership mf x) (the (implied_strength ss l))"
  let ?h = "\<lambda>(l, mf). min (membership mf x) (Max {s. (l, s) \<in> set ss})"
  have dom: "filter (\<lambda>(l, mf). implied_strength ss l \<noteq> None) cats =
             filter (\<lambda>(l, mf). l \<in> fst ` set ss) cats"
    unfolding implied_concluded ..
  have gh: "?g ` ?C = ?h ` ?C"
    by (rule image_cong) (force simp: implied_strength_Max)+
  have fin: "finite (?h ` ?C)" by simp
  have ne: "?h ` ?C \<noteq> {}" using ex by simp
  have pos: "0 \<le> v" if "v \<in> ?h ` ?C" for v
  proof -
    from that obtain l mf where lm: "l \<in> fst ` set ss"
      and v: "v = min (membership mf x) (Max {s. (l, s) \<in> set ss})" by auto
    let ?R = "{s. (l, s) \<in> set ss}"
    from lm obtain s where s: "(l, s) \<in> set ss" by force
    then have "s \<le> Max ?R" using strengths_finite by (intro Max_ge) simp_all
    then have "0 \<le> Max ?R" using nonneg [OF s] by simp
    then show ?thesis using v membership_pos [of mf x] by simp
  qed
  have "0 \<le> Max (?h ` ?C)"
    using pos [OF Max_in [OF fin ne]] .
  then have "Max (insert 0 (?h ` ?C)) = Max (?h ` ?C)"
    using fin ne by simp
  then show ?thesis
    unfolding aggregate_at_Max dom gh .
qed

lemma ControlSystem_Inr:
  "ControlSystem vs out rs = Inr m \<Longrightarrow>
     input_vars m = vs \<and> output_var m = out \<and> rules m = rs \<and> list_all (known_rule vs out) rs"
  by (auto simp: ControlSystem_def split: if_splits)

lemma concluded_nonempty:
  assumes cs: "ControlSystem vs out rs = Inr m" and ne: "rs \<noteq> []"
      and fa: "fire_all vs a rs = Inr ss"
  shows "set (filter (\<lambda>(l, mf). l \<in> fst ` set ss) (categories out)) \<noteq> {}"
proof -
  from ne obtain r where r: "r \<in> set rs" by (cases rs) auto
  from cs r have "consequent r \<in> fst ` set (categories out)"
    by (auto simp: ControlSystem_def known_rule_def list_all_iff split: if_splits)
  then obtain mf where mf: "(consequent r, mf) \<in> set (categories out)" by force
  have "set (map fst ss) = set (map consequent rs)"
    using fire_all_labels [OF fa] by simp
  then have "consequent r \<in> fst ` set ss" using r by auto
  with mf have "(consequent r, mf) \<in> set (filter (\<lambda>(l, mf). l \<in> fst ` set ss) (categories out))"
    by simp
  then show ?thesis by (metis empty_iff)
qed

text \<open>
  Claim C3. For a validated model with at least one rule and an assignment on which all
  rules fire, the aggregate output set is, at every grid point \<open>x\<close> of the output
  universe, the maximum over the concluded categories of
  \<open>min (membership of the category at x) (implied strength)\<close>, where the implied strength
  of a category is the maximum (not the sum) of the strengths of the rules concluding it;
  every value of the aggregate lies in \<open>[0, 1]\<close>.
\<close>

theorem aggregate_is_max_of_clipped:
  assumes cs: "ControlSystem vs out rs = Inr m" and ne: "rs \<noteq> []"
      and fa: "fire_all vs a rs = Inr ss"
  shows "\<exists>agg. infer m a = Inr agg \<and>
           agg = map (\<lambda>x. Max ((\<lambda>(l, mf). min (membership mf x) (Max {s. (l, s) \<in> set ss})) `
                                 set (filter (\<lambda>(l, mf). l \<in> fst ` set ss) (categories out))))
                   (universe out) \<and>
           list_all (\<lambda>y. 0 \<le> y \<and> y \<le> 1) agg"
proof -
  let ?agg = "map (aggregate_at (categories out) (implied_strength ss)) (universe out)"
  from ControlSystem_Inr [OF cs] have m: "input_vars m = vs" "output_var m = out" "rules m = rs"
    by simp_all
  have inf: "infer m a = Inr ?agg"
    using fa m by (simp add: infer_def)
  have nonneg: "\<And>l s. (l, s) \<in> set ss \<Longrightarrow> 0 \<le> s"
    using fire_all_range [OF fa] by fastforce
  have eq: "?agg = map (\<lambda>x. Max ((\<lambda>(l, mf). min (membership mf x) (Max {s. (l, s) \<in> set ss})) `
                                 set (filter (\<lambda>(l, mf). l \<in> fst ` set ss) (categories out))))
                   (universe out)"
    using aggregate_at_concluded [OF nonneg concluded_nonempty [OF cs ne fa]] by simp
  have rng: "list_all (\<lambda>y. 0 \<le> y \<and> y \<le> 1) ?agg"
    by (simp add: list_all_iff aggregate_at_nonneg aggregate_at_le_one)
  from inf eq rng show ?thesis by metis
qed

lemma degree_of_model:
  "degree_of area_ant ''very_small'' x = Inr (membership \<lparr>width = 35, slope = 3, center = 215\<rparr> x)"
  "degree_of area_ant ''small'' x = Inr (membership \<lparr>width = 25, slope = 3, center = 275\<rparr> x)"
  "degree_of area_ant ''medium'' x = Inr (membership \<lparr>width = 10, slope = 3, center = 310\<rparr> x)"
  "degree_of area_ant ''large'' x = Inr (membership \<lparr>width = 20, slope = 3, center = 340\<rparr> x)"
  "degree_of area_ant ''very_large'' x = Inr (membership \<lparr>width = 95 / 2, slope = 3, center = 815 / 2\<rparr> x)"
  "degree_of dist_ave_ant ''close'' y = Inr (membership \<lparr>width = 51 / 100, slope = 3, center = 129 / 100\<rparr> y)"
  "degree_of dist_ave_ant ''moderate'' y = Inr (membership \<lparr>width = 11 / 200, slope = 3, center = 371 / 200\<rparr> y)"
  "degree_of dist_ave_ant ''far'' y = Inr (membership \<lparr>width = 172 / 100, slope = 3, center = 363 / 100\<rparr> y)"
  "degree_of dist_bch_ant ''close'' z = Inr (membership \<lparr>width = 58 / 100, slope = 3, center = 88 / 100\<rparr> z)"
  "degree_of dist_bch_ant ''moderate'' z = Inr (membership \<lparr>width = 23 / 100, slope = 3, center = 169 / 100\<rparr> z)"
  "degree_of dist_bch_ant ''far'' z = Inr (membership \<lparr>width = 249 / 100, slope = 3, center = 441 / 100\<rparr> z)"
  by (simp_all add: degree_of_def area_ant_value dist_ave_ant_value dist_bch_ant_value)

lemma fire_all_model:
  "fire_all [area_ant, dist_ave_ant, dist_bch_ant] (query x y z) get_rules = Inr
     [(''very_low'',
         min (membership \<lparr>width = 35, slope = 3, center = 215\<rparr> x)
           (max (membership \<lparr>width = 172 / 100, slope = 3, center = 363 / 100\<rparr> y)
                (membership \<lparr>width = 249 / 100, slope = 3, center = 441 / 100\<rparr> z))),
      (''low'',
         max (membership \<lparr>width = 25, slope = 3, center = 275\<rparr> x)
             (membership \<lparr>width = 11 / 200, slope = 3, center = 371 / 200\<rparr> y)),
      (''medium'',
         max (max (membership \<lparr>width = 10, slope = 3, center = 310\<rparr> x)
                  (membership \<lparr>width = 51 / 100, slope = 3, center = 129 / 100\<rparr> y))
             (membership \<lparr>width = 58 / 100, slope = 3, center = 88 / 100\<rparr> z)),
      (''high'',
         max (membership \<lparr>width = 20, slope = 3, center = 340\<rparr> x)
             (min (membership \<lparr>width = 51 / 100, slope = 3, center = 129 / 100\<rparr> y)
                  (membership \<lparr>width = 58 / 100, slope = 3, center = 88 / 100\<rparr> z))),
      (''very_high'',
         min (membership \<lparr>width = 95 / 2, slope = 3, center = 815 / 2\<rparr> x)
             (min (membership \<lparr>width = 51 / 100, slope = 3, center = 129 / 100\<rparr> y)
                  (membership \<lparr>width = 58 / 100, slope = 3, center = 88 / 100\<rparr> z)))]"
  unfolding get_rules_def by (simp add: fire_term_model degree_of_model del: fire.simps(1))

lemma fire_all_model_total:
  "fire_all [area_ant, dist_ave_ant, dist_bch_ant] (query x y z) get_rules =
     Inr (projr (fire_all [area_ant, dist_ave_ant, dist_bch_ant] (query x y z) get_rules))"
  by (simp only: fire_all_model sum.sel)

theorem aggregate_is_max_of_clipped_witness:
  "ControlSystem [area_ant, dist_ave_ant, dist_bch_ant] price_con get_rules = Inr land_pricing_model \<and>
   get_rules \<noteq> [] \<and>
   fire_all [area_ant, dist_ave_ant, dist_bch_ant] (query 455 (78 / 100) (30 / 100)) get_rules =
     Inr (projr (fire_all [area_ant, dist_ave_ant, dist_bch_ant] (query 455 (78 / 100) (30 / 100)) get_rules)) \<and>
   (\<exists>agg. infer land_pricing_model (query 455 (78 / 100) (30 / 100)) = Inr agg \<and>
      list_all (\<lambda>y. 0 \<le> y \<and> y \<le> 1) agg)"
proof -
  have cs: "ControlSystem [area_ant, dist_ave_ant, dist_bch_ant] price_con get_rules = Inr land_pricing_model"
    by (rule land_pricing_model_value)
  have ne: "get_rules \<noteq> []"
    by (simp add: get_rules_def)
  note fa = fire_all_model_total [of 455 "78 / 100" "30 / 100"]
  from aggregate_is_max_of_clipped [OF cs ne fa] cs ne fa show ?thesis
    by blast
qed

section \<open>Degenerate aggregates\<close>

lemma aggregate_at_zero_iff:
  assumes nonneg: "\<And>l s. (l, s) \<in> set ss \<Longrightarrow> 0 \<le> s"
      and known: "\<And>l s. (l, s) \<in> set ss \<Longrightarrow> l \<in> fst ` set cats"
  shows "(aggregate_at cats (implied_strength ss) x = 0) = (\<forall>(l, s) \<in> set ss. s = 0)"
proof
  let ?g = "\<lambda>(l, mf). min (membership mf x) (the (implied_strength ss l))"
  let ?S = "?g ` set (filter (\<lambda>(l, mf). implied_strength ss l \<noteq> None) cats)"
  assume zero: "aggregate_at cats (implied_strength ss) x = 0"
  have le: "v \<le> 0" if "v \<in> ?S" for v
  proof -
    have "v \<le> Max (insert 0 ?S)" using that by (intro Max_ge) simp_all
    then show ?thesis using zero by (simp only: aggregate_at_Max)
  qed
  show "\<forall>(l, s) \<in> set ss. s = 0"
  proof clarify
    fix l s assume ls: "(l, s) \<in> set ss"
    from known [OF ls] obtain mf where mf: "(l, mf) \<in> set cats" by force
    have conc: "l \<in> fst ` set ss" using ls by force
    then have imp: "implied_strength ss l = Some (Max {t. (l, t) \<in> set ss})"
      by (simp add: implied_strength_Max)
    then have "min (membership mf x) (Max {t. (l, t) \<in> set ss}) \<in> ?S"
      using mf by force
    from le [OF this] have "Max {t. (l, t) \<in> set ss} \<le> 0"
      using membership_pos [of mf x] by (simp add: min_le_iff_disj)
    moreover have "s \<le> Max {t. (l, t) \<in> set ss}"
      using ls strengths_finite by (intro Max_ge) simp_all
    ultimately show "s = 0" using nonneg [OF ls] by simp
  qed
next
  let ?g = "\<lambda>(l, mf). min (membership mf x) (the (implied_strength ss l))"
  let ?S = "?g ` set (filter (\<lambda>(l, mf). implied_strength ss l \<noteq> None) cats)"
  assume all0: "\<forall>(l, s) \<in> set ss. s = 0"
  have "v = 0" if "v \<in> ?S" for v
  proof -
    from that have "v \<in> ?g ` set (filter (\<lambda>(l, mf). l \<in> fst ` set ss) cats)"
      unfolding implied_concluded .
    then obtain l mf where l: "l \<in> fst ` set ss"
      and v: "v = min (membership mf x) (the (implied_strength ss l))"
      by auto
    have "{t. (l, t) \<in> set ss} = {0}" using l all0 by force
    then have "the (implied_strength ss l) = 0" using l by (simp add: implied_strength_Max)
    then show ?thesis using v membership_pos [of mf x] by simp
  qed
  then have "insert 0 ?S = {0}" by auto
  then show "aggregate_at cats (implied_strength ss) x = 0"
    by (simp only: aggregate_at_Max Max_singleton)
qed

lemma sum_aggregate_zero_iff:
  assumes nonneg: "\<And>l s. (l, s) \<in> set ss \<Longrightarrow> 0 \<le> s"
      and known: "\<And>l s. (l, s) \<in> set ss \<Longrightarrow> l \<in> fst ` set cats"
      and grid: "grid \<noteq> []"
  shows "(sum_list (map (aggregate_at cats (implied_strength ss)) grid) = 0) =
         (\<forall>(l, s) \<in> set ss. s = 0)"
proof -
  have "(sum_list (map (aggregate_at cats (implied_strength ss)) grid) = 0) =
        (\<forall>v \<in> set (map (aggregate_at cats (implied_strength ss)) grid). v = 0)"
    by (rule sum_list_nonneg_eq_0_iff) (auto simp: aggregate_at_nonneg)
  also have "\<dots> = (\<forall>x \<in> set grid. aggregate_at cats (implied_strength ss) x = 0)"
    by simp
  also have "\<dots> = (\<forall>(l, s) \<in> set ss. s = 0)"
  proof -
    from grid obtain x0 where "x0 \<in> set grid" by (cases grid) auto
    moreover have "(aggregate_at cats (implied_strength ss) x = 0) = (\<forall>(l, s) \<in> set ss. s = 0)" for x
      using nonneg known by (rule aggregate_at_zero_iff)
    ultimately show ?thesis by (simp only: ) blast
  qed
  finally show ?thesis .
qed

lemma fire_all_known:
  assumes cs: "ControlSystem vs out rs = Inr m" and fa: "fire_all vs a rs = Inr ss"
      and ls: "(l, s) \<in> set ss"
  shows "l \<in> fst ` set (categories out)"
proof -
  have "set (map fst ss) = set (map consequent rs)"
    using fire_all_labels [OF fa] by simp
  then obtain r where r: "r \<in> set rs" "consequent r = l"
    using ls by force
  with cs show ?thesis
    by (auto simp: ControlSystem_def known_rule_def list_all_iff split: if_splits)
qed

lemma evaluate_degenerate_iff:
  assumes cs: "ControlSystem vs out rs = Inr m"
      and grid: "universe out \<noteq> []"
      and fa: "fire_all vs a rs = Inr ss"
  shows "(evaluate m a = Inl DegenerateAggregate) = list_all (\<lambda>(l, s). s = 0) ss"
proof -
  let ?agg = "map (aggregate_at (categories out) (implied_strength ss)) (universe out)"
  from ControlSystem_Inr [OF cs] have m: "input_vars m = vs" "output_var m = out" "rules m = rs"
    by simp_all
  have ev: "evaluate m a = defuzzify (universe out) ?agg"
    using fa m by (simp add: evaluate_def infer_def)
  have nonneg: "\<And>l s. (l, s) \<in> set ss \<Longrightarrow> 0 \<le> s"
    using fire_all_range [OF fa] by fastforce
  have known: "\<And>l s. (l, s) \<in> set ss \<Longrightarrow> l \<in> fst ` set (categories out)"
    using fire_all_known [OF cs fa] .
  have "(defuzzify (universe out) ?agg = Inl DegenerateAggregate) = (sum_list ?agg = 0)"
    by (simp add: defuzzify_def)
  also have "\<dots> = (\<forall>(l, s) \<in> set ss. s = 0)"
    by (rule sum_aggregate_zero_iff [OF nonneg known grid])
  also have "\<dots> = list_all (\<lambda>(l, s). s = 0) ss"
    by (simp add: list_all_iff)
  finally show ?thesis using ev by simp
qed

section \<open>The simulation object\<close>

lemma run_priv_result:
  "fst (run_priv self x y z) =
     evaluate (land_pricing_ctrl self)
       ((sim_input (land_pricing_sim self))(''area'' \<mapsto> x, ''dist_ave'' \<mapsto> y, ''dist_bch'' \<mapsto> z))"
  by (simp add: run_priv_def compute_def Let_def split: sum.splits)

lemma run_priv_state:
  "land_pricing_ctrl (snd (run_priv self x y z)) = land_pricing_ctrl self"
  "sim_input (land_pricing_sim (snd (run_priv self x y z))) =
     (sim_input (land_pricing_sim self))(''area'' \<mapsto> x, ''dist_ave'' \<mapsto> y, ''dist_bch'' \<mapsto> z)"
  by (simp_all add: run_priv_def compute_def Let_def split: sum.splits)

lemma run_priv_failure_keeps_output:
  "fst (run_priv self x y z) = Inl e \<Longrightarrow>
   sim_output (land_pricing_sim (snd (run_priv self x y z))) = sim_output (land_pricing_sim self)"
  by (simp add: run_priv_def compute_def Let_def split: sum.splits)

lemma run_priv_after:
  "fst (run_priv (snd (run_priv self x y z)) x' y' z') = fst (run_priv self x' y' z')"
  by (simp add: run_priv_result run_priv_state)

section \<open>Universes and centroids\<close>

lemma length_arange: "length (arange lo hi step) = nat \<lceil>(hi - lo) / step\<rceil>"
  by (simp add: arange_def)

lemma nth_arange:
  "i < nat \<lceil>(hi - lo) / step\<rceil> \<Longrightarrow> arange lo hi step ! i = lo + real i * step"
  by (simp add: arange_def)

lemma arange_bounds:
  assumes step: "0 < step" and x: "x \<in> set (arange lo hi step)"
  shows "lo \<le> x \<and> x < hi"
proof -
  from x obtain i where i: "i < nat \<lceil>(hi - lo) / step\<rceil>" and xi: "x = lo + real i * step"
    by (auto simp: arange_def)
  from i have "int i < \<lceil>(hi - lo) / step\<rceil>" by linarith
  then have "real i < (hi - lo) / step" by (simp add: less_ceiling_iff)
  then have "real i * step < hi - lo" using step by (simp add: pos_less_divide_eq)
  moreover have "0 \<le> real i * step" using step by simp
  ultimately show ?thesis using xi by linarith
qed

lemma stop_not_in_arange: "0 < step \<Longrightarrow> hi \<notin> set (arange lo hi step)"
  using arange_bounds [of step hi lo hi] by auto

lemma universes:
  "universe area_ant = arange AreaConstants_MIN AreaConstants_MAX AreaConstants_STEP"
  "universe dist_ave_ant = arange DistAveConstants_MIN DistAveConstants_MAX DistAveConstants_STEP"
  "universe dist_bch_ant = arange DistBchConstants_MIN DistBchConstants_MAX DistBchConstants_STEP"
  "universe price_con = arange PriceConstants_MIN PriceConstants_MAX PriceConstants_STEP"
  by (simp_all add: area_ant_value dist_ave_ant_value dist_bch_ant_value price_con_value
      AreaConstants_defs DistAveConstants_defs DistBchConstants_defs PriceConstants_defs)

lemma price_universe_length: "length (universe price_con) = 480"
  by (simp add: price_con_value length_arange)

lemma price_universe_nonempty: "universe price_con \<noteq> []"
  using price_universe_length by auto

lemma price_universe_bounds:
  assumes "x \<in> set (universe price_con)"
  shows "20000 \<le> x \<and> x \<le> 499000"
proof -
  from assms obtain i where i: "i < nat \<lceil>(500000 - 20000) / (1000::real)\<rceil>"
    and xi: "x = 20000 + real i * 1000"
    by (auto simp: price_con_value arange_def)
  from i have "i < 480" by simp
  then have "real i \<le> 479" by simp
  then show ?thesis using xi by simp
qed

lemma map2_mult_map: "map2 (*) xs (map w xs) = map (\<lambda>x. x * w x) xs"
  by (induction xs) simp_all

lemma centroid_bounds:
  fixes xs :: "real list"
  assumes rng: "\<And>x. x \<in> set xs \<Longrightarrow> lo \<le> x \<and> x \<le> hi"
      and nonneg: "\<And>x. x \<in> set xs \<Longrightarrow> 0 \<le> w x"
      and nz: "sum_list (map w xs) \<noteq> 0"
  shows "lo \<le> sum_list (map (\<lambda>x. x * w x) xs) / sum_list (map w xs) \<and>
         sum_list (map (\<lambda>x. x * w x) xs) / sum_list (map w xs) \<le> hi"
proof -
  have "0 \<le> sum_list (map w xs)"
    by (rule sum_list_nonneg) (auto simp: nonneg)
  with nz have pos: "0 < sum_list (map w xs)" by simp
  have "sum_list (map (\<lambda>x. lo * w x) xs) \<le> sum_list (map (\<lambda>x. x * w x) xs)"
    by (rule sum_list_mono) (simp add: rng nonneg mult_right_mono)
  then have lower: "lo * sum_list (map w xs) \<le> sum_list (map (\<lambda>x. x * w x) xs)"
    by (simp add: sum_list_const_mult)
  have "sum_list (map (\<lambda>x. x * w x) xs) \<le> sum_list (map (\<lambda>x. hi * w x) xs)"
    by (rule sum_list_mono) (simp add: rng nonneg mult_right_mono)
  then have upper: "sum_list (map (\<lambda>x. x * w x) xs) \<le> hi * sum_list (map w xs)"
    by (simp add: sum_list_const_mult)
  from lower upper pos show ?thesis
    by (simp add: pos_le_divide_eq pos_divide_le_eq)
qed

lemma defuzzify_bounds:
  assumes d: "defuzzify grid (map w grid) = Inr p"
      and rng: "\<And>x. x \<in> set grid \<Longrightarrow> lo \<le> x \<and> x \<le> hi"
      and nonneg: "\<And>x. x \<in> set grid \<Longrightarrow> 0 \<le> w x"
  shows "lo \<le> p \<and> p \<le> hi"
proof -
  from d have nz: "sum_list (map w grid) \<noteq> 0"
    and p: "p = sum_list (map (\<lambda>x. x * w x) grid) / sum_list (map w grid)"
    by (auto simp: defuzzify_def map2_mult_map split: if_splits)
  from centroid_bounds [OF rng nonneg nz] p show ?thesis by simp
qed

lemma model_fields:
  "input_vars land_pricing_model = [area_ant, dist_ave_ant, dist_bch_ant]"
  "output_var land_pricing_model = price_con"
  "rules land_pricing_model = get_rules"
  by (simp_all add: land_pricing_model_value(2))

lemma defuzzify_error: "defuzzify grid agg = Inl e \<Longrightarrow> e = DegenerateAggregate"
  by (simp add: defuzzify_def split: if_splits)

lemma evaluate_model_total:
  "\<exists>p. evaluate land_pricing_model (query x y z) = Inr p"
proof -
  obtain ss where fa: "fire_all [area_ant, dist_ave_ant, dist_bch_ant] (query x y z) get_rules = Inr ss"
    and ne: "ss \<noteq> []"
    using fire_all_model [of x y z] by blast
  from ne obtain l s where ls: "(l, s) \<in> set ss" by (cases ss) auto
  from fire_all_range [OF fa ls] have "s \<noteq> 0" by simp
  with ls have "\<not> list_all (\<lambda>(l, s). s = 0) ss" by (auto simp: list_all_iff)
  then have nd: "evaluate land_pricing_model (query x y z) \<noteq> Inl DegenerateAggregate"
    using evaluate_degenerate_iff [OF land_pricing_model_value(1) price_universe_nonempty fa] by simp
  have ev: "evaluate land_pricing_model (query x y z) =
        defuzzify (universe price_con)
          (map (aggregate_at (categories price_con) (implied_strength ss)) (universe price_con))"
    by (simp only: evaluate_def infer_def model_fields fa sum.case)
  show ?thesis
  proof (cases "evaluate land_pricing_model (query x y z)")
    case (Inl e)
    with ev have "e = DegenerateAggregate" by (metis defuzzify_error)
    with Inl nd show ?thesis by simp
  next
    case (Inr p)
    then show ?thesis by blast
  qed
qed



section \<open>Independence of the stored state\<close>

lemma find_variable_Some:
  "find_variable vs n = Some v \<Longrightarrow> v \<in> set vs \<and> name v = n"
  by (induction vs) (auto split: if_splits)

lemma fire_agree:
  assumes agree: "\<And>v. v \<in> set vs \<Longrightarrow> a (name v) = b (name v)"
  shows "known_terms vs e \<Longrightarrow> fire vs a e = fire vs b e"
proof (induction e)
  case (Term n cat)
  then obtain v where v: "find_variable vs n = Some v"
    by (auto split: option.splits)
  from find_variable_Some [OF v] agree have "a n = b n" by auto
  then show ?case using v by simp
next
  case (And l r)
  then show ?case by (simp split: sum.splits)
next
  case (Or l r)
  then show ?case by (simp split: sum.splits)
qed

lemma fire_all_agree:
  assumes agree: "\<And>v. v \<in> set vs \<Longrightarrow> a (name v) = b (name v)"
  shows "list_all (known_rule vs out) rs \<Longrightarrow> fire_all vs a rs = fire_all vs b rs"
proof (induction rs)
  case Nil
  then show ?case by simp
next
  case (Cons r rs)
  then have "fire vs a (antecedent r) = fire vs b (antecedent r)"
    using fire_agree [of vs a b "antecedent r"] agree by (simp add: known_rule_def)
  then show ?case using Cons by (simp split: sum.splits)
qed

lemma evaluate_agree:
  assumes cs: "ControlSystem vs out rs = Inr m"
      and agree: "\<And>v. v \<in> set vs \<Longrightarrow> a (name v) = b (name v)"
  shows "evaluate m a = evaluate m b"
proof -
  from ControlSystem_Inr [OF cs] have m: "input_vars m = vs" "rules m = rs"
    and known: "list_all (known_rule vs out) rs" by simp_all
  have "fire_all vs a rs = fire_all vs b rs"
    using fire_all_agree [of vs a b out rs] agree known by simp
  then show ?thesis
    by (simp only: evaluate_def infer_def m)
qed

lemma evaluate_model_any:
  assumes "a ''area'' = Some x" "a ''dist_ave'' = Some y" "a ''dist_bch'' = Some z"
  shows "evaluate land_pricing_model a = evaluate land_pricing_model (query x y z)"
proof (rule evaluate_agree [OF land_pricing_model_value(1)])
  fix v assume "v \<in> set [area_ant, dist_ave_ant, dist_bch_ant]"
  then show "a (name v) = query x y z (name v)"
    using assms by (auto simp: names_model query_def)
qed

lemma run_priv_model:
  "land_pricing_ctrl self = land_pricing_model \<Longrightarrow>
   fst (run_priv self x y z) = evaluate land_pricing_model (query x y z)"
  by (simp add: run_priv_result evaluate_model_any [of _ x y z])

lemma run_areas_model:
  "land_pricing_ctrl self = land_pricing_model \<Longrightarrow>
   \<exists>self'. run_areas self areas = Inr self' \<and> land_pricing_ctrl self' = land_pricing_model"
proof (induction areas arbitrary: self)
  case Nil
  then show ?case by simp
next
  case (Cons area areas)
  let ?r = "run_priv self area DistAveConstants_AVERAGE DistBchConstants_AVERAGE"
  obtain p where p: "fst ?r = Inr p"
    using run_priv_model [OF Cons.prems] evaluate_model_total by metis
  have "land_pricing_ctrl (snd ?r) = land_pricing_model"
    using Cons.prems by (simp add: run_priv_state)
  from Cons.IH [OF this] obtain self' where
    "run_areas (snd ?r) areas = Inr self'" "land_pricing_ctrl self' = land_pricing_model"
    by blast
  then show ?case using p by (cases ?r) auto
qed

lemma LandPricing_init_ok:
  "\<exists>self. LandPricing_init = Inr self \<and> land_pricing_ctrl self = land_pricing_model"
proof -
  have ca: "create_antecedents = (area_ant, dist_ave_ant, dist_bch_ant)"
    by (simp add: area_ant_def dist_ave_ant_def dist_bch_ant_def)
  have cc: "create_consequent = price_con"
    by (simp add: price_con_def)
  have "LandPricing_init =
        plot_area_vs_price \<lparr>land_pricing_ctrl = land_pricing_model,
          land_pricing_sim = \<lparr>sim_input = Map.empty, sim_output = Map.empty\<rparr>\<rparr>"
    by (simp add: LandPricing_init_def ca cc land_pricing_model_value(1))
  moreover have "\<exists>self'. run_areas \<lparr>land_pricing_ctrl = land_pricing_model,
          land_pricing_sim = \<lparr>sim_input = Map.empty, sim_output = Map.empty\<rparr>\<rparr>
          (arange AreaConstants_P00 AreaConstants_P100 1) = Inr self' \<and>
          land_pricing_ctrl self' = land_pricing_model"
    by (rule run_areas_model) simp
  ultimately show ?thesis
    unfolding plot_area_vs_price_def by simp
qed

text \<open>
  Claim C8. Running the same query twice on the same object returns the same result both
  times (for \<^verbatim>\<open>_run\<close> and for \<^verbatim>\<open>run\<close>), whatever the shared simulation object
  held before; and on the object that \<^verbatim>\<open>__init__\<close> builds (whose simulation has
  already served the queries of \<^verbatim>\<open>plot_area_vs_price\<close>), the result of a query is the
  evaluation of the model on the three inputs alone.
\<close>

theorem run_is_idempotent:
  "fst (run_priv (snd (run_priv self x y z)) x y z) = fst (run_priv self x y z) \<and>
   fst (run (snd (run self x y z)) x y z) = fst (run self x y z) \<and>
   (\<exists>lp. LandPricing_init = Inr lp \<and>
      fst (run_priv lp x y z) = evaluate land_pricing_model (query x y z) \<and>
      fst (run_priv (snd (run_priv lp x y z)) x y z) = evaluate land_pricing_model (query x y z))"
proof -
  obtain lp where lp: "LandPricing_init = Inr lp" "land_pricing_ctrl lp = land_pricing_model"
    using LandPricing_init_ok by blast
  have "fst (run_priv lp x y z) = evaluate land_pricing_model (query x y z)"
    using lp(2) by (rule run_priv_model)
  then show ?thesis
    using lp(1) by (auto simp: run_def run_priv_after)
qed

section \<open>The range of the price\<close>

lemma evaluate_model_aggregate:
  assumes "evaluate land_pricing_model a = Inr p"
  shows "\<exists>ss. defuzzify (universe price_con)
           (map (aggregate_at (categories price_con) (implied_strength ss)) (universe price_con)) = Inr p"
  using assms by (auto simp: evaluate_def infer_def model_fields split: sum.splits)

text \<open>
  Claim C10. Every universe is the arithmetic progression from \<^verbatim>\<open>MIN\<close> (inclusive) to
  \<^verbatim>\<open>MAX\<close> (exclusive) in steps of \<^verbatim>\<open>STEP\<close>, so the declared \<^verbatim>\<open>MAX\<close> is not a grid
  point of any of the four variables; and every price that a query returns lies between
  \<^verbatim>\<open>PriceConstants.MIN\<close> and \<^verbatim>\<open>PriceConstants.MAX - PriceConstants.STEP\<close>, that is in
  \<open>[20000, 499000]\<close>, strictly below the declared maximum.
\<close>

theorem price_within_universe:
  assumes ev: "evaluate land_pricing_model a = Inr p"
  shows "universe area_ant = arange AreaConstants_MIN AreaConstants_MAX AreaConstants_STEP \<and>
         universe dist_ave_ant = arange DistAveConstants_MIN DistAveConstants_MAX DistAveConstants_STEP \<and>
         universe dist_bch_ant = arange DistBchConstants_MIN DistBchConstants_MAX DistBchConstants_STEP \<and>
         universe price_con = arange PriceConstants_MIN PriceConstants_MAX PriceConstants_STEP \<and>
         AreaConstants_MAX \<notin> set (universe area_ant) \<and>
         DistAveConstants_MAX \<notin> set (universe dist_ave_ant) \<and>
         DistBchConstants_MAX \<notin> set (universe dist_bch_ant) \<and>
         PriceConstants_MAX \<notin> set (universe price_con) \<and>
         PriceConstants_MIN \<le> p \<and> p \<le> PriceConstants_MAX - PriceConstants_STEP \<and>
         p < PriceConstants_MAX"
proof -
  have "AreaConstants_MAX \<notin> set (universe area_ant)"
    unfolding universes by (rule stop_not_in_arange) (simp add: AreaConstants_STEP_def)
  moreover have "DistAveConstants_MAX \<notin> set (universe dist_ave_ant)"
    unfolding universes by (rule stop_not_in_arange) (simp add: DistAveConstants_STEP_def)
  moreover have "DistBchConstants_MAX \<notin> set (universe dist_bch_ant)"
    unfolding universes by (rule stop_not_in_arange) (simp add: DistBchConstants_STEP_def)
  moreover have "PriceConstants_MAX \<notin> set (universe price_con)"
    unfolding universes by (rule stop_not_in_arange) (simp add: PriceConstants_STEP_def)
  moreover have "PriceConstants_MIN \<le> p \<and> p \<le> PriceConstants_MAX - PriceConstants_STEP"
  proof -
    from evaluate_model_aggregate [OF ev] obtain ss where
      d: "defuzzify (universe price_con)
            (map (aggregate_at (categories price_con) (implied_strength ss)) (universe price_con)) = Inr p"
      by blast
    have "20000 \<le> p \<and> p \<le> 499000"
      using d by (rule defuzzify_bounds) (simp_all add: price_universe_bounds aggregate_at_nonneg)
    then show ?thesis
      by (simp add: PriceConstants_MIN_def PriceConstants_MAX_def PriceConstants_STEP_def)
  qed
  moreover have "PriceConstants_MAX - PriceConstants_STEP < PriceConstants_MAX"
    by (simp add: PriceConstants_STEP_def)
  ultimately show ?thesis using universes by simp
qed

theorem price_within_universe_witness:
  "evaluate land_pricing_model (query 455 (78 / 100) (30 / 100)) =
     Inr (projr (evaluate land_pricing_model (query 455 (78 / 100) (30 / 100)))) \<and>
   PriceConstants_MIN \<le> projr (evaluate land_pricing_model (query 455 (78 / 100) (30 / 100))) \<and>
   projr (evaluate land_pricing_model (query 455 (78 / 100) (30 / 100))) \<le> 499000"
proof -
  obtain p where p: "evaluate land_pricing_model (query 455 (78 / 100) (30 / 100)) = Inr p"
    using evaluate_model_total by blast
  then have h: "evaluate land_pricing_model (query 455 (78 / 100) (30 / 100)) =
     Inr (projr (evaluate land_pricing_model (query 455 (78 / 100) (30 / 100))))"
    by simp
  from price_within_universe [OF h] h show ?thesis
    by (simp add: PriceConstants_MAX_def PriceConstants_STEP_def)
qed

section \<open>Parameters at construction\<close>

lemma set_categories_map:
  "set_categories specs = map (\<lambda>(l, a, b, c). (l, \<lparr>width = a, slope = b, center = c\<rparr>)) specs"
  by (induction specs) auto

lemma fire_error: "fire vs a e = Inl err \<Longrightarrow> err = UnknownCategory \<or> err = MissingInput"
  by (induction e arbitrary: err)
     (auto simp: degree_of_def split: option.splits sum.splits)

lemma fire_all_error: "fire_all vs a rs = Inl err \<Longrightarrow> err = UnknownCategory \<or> err = MissingInput"
  by (induction rs arbitrary: err) (auto split: sum.splits dest: fire_error)

lemma evaluate_error:
  "evaluate m a = Inl err \<Longrightarrow>
   err = UnknownCategory \<or> err = MissingInput \<or> err = DegenerateAggregate"
  by (auto simp: evaluate_def infer_def split: sum.splits dest: fire_all_error defuzzify_error)

lemma ControlSystem_error: "ControlSystem vs out rs = Inl err \<Longrightarrow> err = UnknownCategory"
  by (simp add: ControlSystem_def split: if_splits)

text \<open>
  Claim C7, as stated, fails: the program checks no parameter. A variable with a category
  of width 0 and another of slope 0 is built like any other, and the control system of a
  rule over it is returned whole, with both categories in it; nothing answers
  \<^verbatim>\<open>InvalidParameter\<close>, and a query on that model (area = 275, the center of the
  category that its rule names, at the average distances) is answered with a price.
\<close>

theorem zero_width_build_counterexample:
  "ControlSystem
     [make_variable ''area'' (arange 100 500 1)
        [(''very_small'', 0, 3, 215), (''small'', 25, 3, 275), (''medium'', 10, 0, 310)]]
     (make_variable ''price'' (arange 20000 500000 1000) [(''very_low'', 44800, 3, 87200)])
     [\<lparr>antecedent = Term ''area'' ''small'', consequent = ''very_low''\<rparr>] =
   Inr \<lparr>input_vars =
          [\<lparr>name = ''area'', universe = arange 100 500 1,
            categories = [(''very_small'', \<lparr>width = 0, slope = 3, center = 215\<rparr>),
                          (''small'', \<lparr>width = 25, slope = 3, center = 275\<rparr>),
                          (''medium'', \<lparr>width = 10, slope = 0, center = 310\<rparr>)]\<rparr>],
        output_var =
          \<lparr>name = ''price'', universe = arange 20000 500000 1000,
           categories = [(''very_low'', \<lparr>width = 44800, slope = 3, center = 87200\<rparr>)]\<rparr>,
        rules = [\<lparr>antecedent = Term ''area'' ''small'', consequent = ''very_low''\<rparr>]\<rparr> \<and>
   \<not> isl (evaluate
      \<lparr>input_vars =
          [\<lparr>name = ''area'', universe = arange 100 500 1,
            categories = [(''very_small'', \<lparr>width = 0, slope = 3, center = 215\<rparr>),
                          (''small'', \<lparr>width = 25, slope = 3, center = 275\<rparr>),
                          (''medium'', \<lparr>width = 10, slope = 0, center = 310\<rparr>)]\<rparr>],
        output_var =
          \<lparr>name = ''price'', universe = arange 20000 500000 1000,
           categories = [(''very_low'', \<lparr>width = 44800, slope = 3, center = 87200\<rparr>)]\<rparr>,
        rules = [\<lparr>antecedent = Term ''area'' ''small'', consequent = ''very_low''\<rparr>]\<rparr>
      (query 275 DistAveConstants_AVERAGE DistBchConstants_AVERAGE))"
proof -
  let ?area = "\<lparr>name = ''area'', universe = arange 100 500 1,
            categories = [(''very_small'', \<lparr>width = 0, slope = 3, center = 215\<rparr>),
                          (''small'', \<lparr>width = 25, slope = 3, center = 275\<rparr>),
                          (''medium'', \<lparr>width = 10, slope = 0, center = 310\<rparr>)]\<rparr>"
  let ?price = "\<lparr>name = ''price'', universe = arange 20000 500000 1000,
           categories = [(''very_low'', \<lparr>width = 44800, slope = 3, center = 87200\<rparr>)]\<rparr>"
  let ?rs = "[\<lparr>antecedent = Term ''area'' ''small'', consequent = ''very_low''\<rparr>]"
  let ?m = "\<lparr>input_vars = [?area], output_var = ?price, rules = ?rs\<rparr>"
  let ?q = "query 275 DistAveConstants_AVERAGE DistBchConstants_AVERAGE"
  have cs: "ControlSystem [?area] ?price ?rs = Inr ?m"
    by (simp add: ControlSystem_def known_rule_def)
  have fa: "fire_all [?area] ?q ?rs = Inr [(''very_low'', 1)]"
    by (simp add: degree_of_def membership_def query_def)
  have "length (universe ?price) = 480"
    by (simp add: length_arange)
  then have grid: "universe ?price \<noteq> []" by auto
  from evaluate_degenerate_iff [OF cs grid fa]
  have nd: "evaluate ?m ?q \<noteq> Inl DegenerateAggregate" by simp
  have "evaluate ?m ?q \<noteq> Inl err" for err
  proof
    assume e: "evaluate ?m ?q = Inl err"
    with fa have "err = DegenerateAggregate"
      by (auto simp: evaluate_def infer_def split: sum.splits dest: defuzzify_error)
    with e nd show False by simp
  qed
  then have "\<not> isl (evaluate ?m ?q)"
    by (cases "evaluate ?m ?q") auto
  with cs show ?thesis
    by (simp add: make_variable_def)
qed

text \<open>
  Claim C7, amended. Constructing a membership function with width 0 or slope 0 does not
  fail: every category that is assigned is in the variable that is built, with the
  parameters it was given, whatever they are; neither the construction of the control
  system nor a query ever answers \<^verbatim>\<open>InvalidParameter\<close> (a build can only fail with
  \<^verbatim>\<open>UnknownCategory\<close>, a query with \<^verbatim>\<open>UnknownCategory\<close>, \<^verbatim>\<open>MissingInput\<close> or
  \<^verbatim>\<open>DegenerateAggregate\<close>); and the build of the program's own model,
  \<^verbatim>\<open>LandPricing.__init__\<close>, succeeds. For a positive width and a positive slope the
  evaluation of a membership function has no failure: it returns a degree in \<open>(0, 1]\<close>
  at every point.
\<close>

theorem build_checks_no_parameter:
  assumes a: "0 < a" and b: "0 < b"
  shows "categories (make_variable n grid specs) =
           map (\<lambda>(l, w, s, c). (l, \<lparr>width = w, slope = s, center = c\<rparr>)) specs \<and>
         name (make_variable n grid specs) = n \<and>
         universe (make_variable n grid specs) = grid \<and>
         ControlSystem vs out rs \<noteq> Inl InvalidParameter \<and>
         evaluate m q \<noteq> Inl InvalidParameter \<and>
         (\<exists>self. LandPricing_init = Inr self) \<and>
         0 < membership \<lparr>width = a, slope = b, center = c\<rparr> x \<and>
         membership \<lparr>width = a, slope = b, center = c\<rparr> x \<le> 1"
proof -
  have "ControlSystem vs out rs \<noteq> Inl InvalidParameter"
    using ControlSystem_error [of vs out rs InvalidParameter] by auto
  moreover have "evaluate m q \<noteq> Inl InvalidParameter"
    using evaluate_error [of m q InvalidParameter] by auto
  moreover have "\<exists>self. LandPricing_init = Inr self"
    using LandPricing_init_ok by blast
  ultimately show ?thesis
    using membership_pos [of "\<lparr>width = a, slope = b, center = c\<rparr>" x]
      membership_le_one [of "\<lparr>width = a, slope = b, center = c\<rparr>" x]
    by (simp add: make_variable_def set_categories_map)
qed

theorem build_checks_no_parameter_witness:
  "(0::real) < 35 \<and> (0::real) < 3 \<and>
   categories (make_variable ''area'' (arange 100 500 1)
       [(''very_small'', 0, 3, 215), (''small'', 25, 3, 275), (''medium'', 10, 0, 310)]) =
     [(''very_small'', \<lparr>width = 0, slope = 3, center = 215\<rparr>),
      (''small'', \<lparr>width = 25, slope = 3, center = 275\<rparr>),
      (''medium'', \<lparr>width = 10, slope = 0, center = 310\<rparr>)] \<and>
   ControlSystem
     [make_variable ''area'' (arange 100 500 1)
        [(''very_small'', 0, 3, 215), (''small'', 25, 3, 275), (''medium'', 10, 0, 310)]]
     (make_variable ''price'' (arange 20000 500000 1000) [(''very_low'', 44800, 3, 87200)])
     [\<lparr>antecedent = Term ''area'' ''small'', consequent = ''very_low''\<rparr>] \<noteq> Inl InvalidParameter \<and>
   0 < membership \<lparr>width = 35, slope = 3, center = 215\<rparr> 180 \<and>
   membership \<lparr>width = 35, slope = 3, center = 215\<rparr> 180 \<le> 1"
proof -
  have a: "(0::real) < 35" and b: "(0::real) < 3" by simp_all
  from build_checks_no_parameter [OF a b, of "''area''" "arange 100 500 1"
      "[(''very_small'', 0, 3, 215), (''small'', 25, 3, 275), (''medium'', 10, 0, 310)]"
      "[make_variable ''area'' (arange 100 500 1)
        [(''very_small'', 0, 3, 215), (''small'', 25, 3, 275), (''medium'', 10, 0, 310)]]"
      "make_variable ''price'' (arange 20000 500000 1000) [(''very_low'', 44800, 3, 87200)]"
      "[\<lparr>antecedent = Term ''area'' ''small'', consequent = ''very_low''\<rparr>]" _ _ 215 180]
  show ?thesis using a b by simp
qed

section \<open>The end-to-end query at the upper breakpoints\<close>

lemma evaluate_model_aggregate_query:
  "evaluate land_pricing_model (query x y z) =
     defuzzify (universe price_con) (map (price_aggregate x y z) (universe price_con))"
proof -
  obtain ss where fa: "fire_all [area_ant, dist_ave_ant, dist_bch_ant] (query x y z) get_rules = Inr ss"
    using fire_all_model [of x y z] by blast
  then show ?thesis
    by (simp add: evaluate_def infer_def model_fields price_aggregate_def)
qed

lemma membership_antimono:
  assumes s: "0 \<le> slope mf" and d: "\<bar>x - center mf\<bar> \<le> \<bar>y - center mf\<bar>"
  shows "membership mf y \<le> membership mf x"
proof -
  let ?tx = "\<bar>(x - center mf) / width mf\<bar>" and ?ty = "\<bar>(y - center mf) / width mf\<bar>"
  have "?tx \<le> ?ty"
    using d by (simp add: abs_divide divide_right_mono)
  then have "?tx powr (2 * slope mf) \<le> ?ty powr (2 * slope mf)"
    using s by (intro powr_mono2) simp_all
  moreover have "0 \<le> ?tx powr (2 * slope mf)" by simp
  ultimately show ?thesis
    unfolding membership_def by (intro divide_left_mono) (simp_all add: add_pos_nonneg)
qed

lemma membership_ge_half:
  assumes w: "0 < width mf" and s: "0 \<le> slope mf" and d: "\<bar>x - center mf\<bar> \<le> width mf"
  shows "1 / 2 \<le> membership mf x"
proof -
  have "\<bar>(x - center mf) / width mf\<bar> \<le> 1"
    using w d by (simp add: abs_divide)
  then have "\<bar>(x - center mf) / width mf\<bar> powr (2 * slope mf) \<le> 1 powr (2 * slope mf)"
    using s by (intro powr_mono2) simp_all
  then have "\<bar>(x - center mf) / width mf\<bar> powr (2 * slope mf) \<le> 1"
    by simp
  moreover have "1 / 2 \<le> 1 / (1 + t)" if "0 \<le> t" "t \<le> 1" for t :: real
  proof -
    have "0 < 1 + t" using that by simp
    then show ?thesis using that by (simp add: pos_le_divide_eq)
  qed
  moreover have "0 \<le> \<bar>(x - center mf) / width mf\<bar> powr (2 * slope mf)" by simp
  ultimately show ?thesis
    unfolding membership_def by blast
qed

subsection \<open>Strengths and the aggregate\<close>

lemma degrees_455:
  "membership \<lparr>width = 35, slope = 3, center = 215\<rparr> 455 \<le> 1 / 10000"
  "membership \<lparr>width = 25, slope = 3, center = 275\<rparr> 455 \<le> 1 / 10000"
  "membership \<lparr>width = 11 / 200, slope = 3, center = 371 / 200\<rparr> (78 / 100) \<le> 1 / 10000"
  "membership \<lparr>width = 10, slope = 3, center = 310\<rparr> 455 \<le> 1 / 2"
  "membership \<lparr>width = 20, slope = 3, center = 340\<rparr> 455 \<le> 1 / 2"
  "membership \<lparr>width = 95 / 2, slope = 3, center = 815 / 2\<rparr> 455 = 1 / 2"
  "membership \<lparr>width = 51 / 100, slope = 3, center = 129 / 100\<rparr> (78 / 100) = 1 / 2"
  "membership \<lparr>width = 58 / 100, slope = 3, center = 88 / 100\<rparr> (30 / 100) = 1 / 2"
  by (simp_all add: membership_slope3 power_divide field_simps)

lemma strengths_455:
  "\<exists>s1 s2. 0 < s1 \<and> s1 \<le> 1 / 10000 \<and> 0 < s2 \<and> s2 \<le> 1 / 10000 \<and>
     fire_all [area_ant, dist_ave_ant, dist_bch_ant] (query 455 (78 / 100) (30 / 100)) get_rules =
       Inr [(''very_low'', s1), (''low'', s2), (''medium'', 1 / 2), (''high'', 1 / 2),
            (''very_high'', 1 / 2)]"
proof -
  let ?s1 = "min (membership \<lparr>width = 35, slope = 3, center = 215\<rparr> 455)
           (max (membership \<lparr>width = 172 / 100, slope = 3, center = 363 / 100\<rparr> (78 / 100))
                (membership \<lparr>width = 249 / 100, slope = 3, center = 441 / 100\<rparr> (30 / 100)))"
  let ?s2 = "max (membership \<lparr>width = 25, slope = 3, center = 275\<rparr> 455)
             (membership \<lparr>width = 11 / 200, slope = 3, center = 371 / 200\<rparr> (78 / 100))"
  have "0 < ?s1" by (simp add: membership_pos less_max_iff_disj)
  moreover have "?s1 \<le> 1 / 10000" using degrees_455(1) by (simp add: min_le_iff_disj)
  moreover have "0 < ?s2" by (simp add: membership_pos less_max_iff_disj)
  moreover have "?s2 \<le> 1 / 10000" using degrees_455(2,3) by simp
  moreover have "fire_all [area_ant, dist_ave_ant, dist_bch_ant] (query 455 (78 / 100) (30 / 100)) get_rules =
       Inr [(''very_low'', ?s1), (''low'', ?s2), (''medium'', 1 / 2), (''high'', 1 / 2),
            (''very_high'', 1 / 2)]"
    unfolding fire_all_model degrees_455(6,7,8) using degrees_455(4,5) by simp
  ultimately show ?thesis by blast
qed

lemma price_aggregate_455:
  "\<exists>s1 s2. 0 < s1 \<and> s1 \<le> 1 / 10000 \<and> 0 < s2 \<and> s2 \<le> 1 / 10000 \<and>
     (\<forall>x. price_aggregate 455 (78 / 100) (30 / 100) x =
        max (max (max (max (max 0 (min (mu_very_low x) s1)) (min (mu_low x) s2))
                      (min (mu_medium x) (1 / 2)))
                 (min (mu_high x) (1 / 2)))
            (min (mu_very_high x) (1 / 2)))"
proof -
  from strengths_455 obtain s1 s2 where
    s: "0 < s1" "s1 \<le> 1 / 10000" "0 < s2" "s2 \<le> 1 / 10000" and
    fa: "fire_all [area_ant, dist_ave_ant, dist_bch_ant] (query 455 (78 / 100) (30 / 100)) get_rules =
       Inr [(''very_low'', s1), (''low'', s2), (''medium'', 1 / 2), (''high'', 1 / 2),
            (''very_high'', 1 / 2)]"
    by blast
  have "price_aggregate 455 (78 / 100) (30 / 100) x =
        max (max (max (max (max 0 (min (mu_very_low x) s1)) (min (mu_low x) s2))
                      (min (mu_medium x) (1 / 2)))
                 (min (mu_high x) (1 / 2)))
            (min (mu_very_high x) (1 / 2))" for x
  proof -
    let ?ss = "[(''very_low'', s1), (''low'', s2), (''medium'', 1 / 2), (''high'', 1 / 2),
            (''very_high'', 1 / 2 :: real)]"
    have imp: "implied_strength ?ss ''very_low'' = Some s1" "implied_strength ?ss ''low'' = Some s2"
      "implied_strength ?ss ''medium'' = Some (1 / 2)" "implied_strength ?ss ''high'' = Some (1 / 2)"
      "implied_strength ?ss ''very_high'' = Some (1 / 2)"
      by simp_all
    have cats: "categories price_con =
       [(''very_low'', \<lparr>width = 44800, slope = 3, center = 87200\<rparr>),
        (''low'', \<lparr>width = 14000, slope = 3, center = 146000\<rparr>),
        (''medium'', \<lparr>width = 10000, slope = 3, center = 170000\<rparr>),
        (''high'', \<lparr>width = 29300, slope = 3, center = 209300\<rparr>),
        (''very_high'', \<lparr>width = 80700, slope = 3, center = 319300\<rparr>)]"
      by (simp add: price_con_value)
    show ?thesis
      unfolding price_aggregate_def fa sum.sel aggregate_at_def cats
      by (simp only: fold_simps prod.case imp option.case comp_apply)
  qed
  with s show ?thesis by blast
qed

lemma max5_le:
  fixes u :: real
  assumes "0 \<le> u" "a \<le> u" "b \<le> u" "c \<le> u" "d \<le> u" "e \<le> u"
  shows "max (max (max (max (max 0 a) b) c) d) e \<le> u"
  using assms by simp

lemma aggregate_455_le_half: "price_aggregate 455 (78 / 100) (30 / 100) x \<le> 1 / 2"
proof -
  from price_aggregate_455 obtain s1 s2 where
    s: "s1 \<le> 1 / 10000" "s2 \<le> 1 / 10000" and
    A: "\<And>x. price_aggregate 455 (78 / 100) (30 / 100) x =
        max (max (max (max (max 0 (min (mu_very_low x) s1)) (min (mu_low x) s2))
                      (min (mu_medium x) (1 / 2)))
                 (min (mu_high x) (1 / 2)))
            (min (mu_very_high x) (1 / 2))"
    by blast
  show ?thesis unfolding A
  proof (rule max5_le)
    show "min (mu_very_low x) s1 \<le> 1 / 2" using s(1) by (intro min.coboundedI2) linarith
    show "min (mu_low x) s2 \<le> 1 / 2" using s(2) by (intro min.coboundedI2) linarith
  qed simp_all
qed

lemma aggregate_455_ge_clipped:
  "min (mu_medium x) (1 / 2) \<le> price_aggregate 455 (78 / 100) (30 / 100) x"
  "min (mu_high x) (1 / 2) \<le> price_aggregate 455 (78 / 100) (30 / 100) x"
  "min (mu_very_high x) (1 / 2) \<le> price_aggregate 455 (78 / 100) (30 / 100) x"
proof -
  from price_aggregate_455 obtain s1 s2 where
    A: "\<And>x. price_aggregate 455 (78 / 100) (30 / 100) x =
        max (max (max (max (max 0 (min (mu_very_low x) s1)) (min (mu_low x) s2))
                      (min (mu_medium x) (1 / 2)))
                 (min (mu_high x) (1 / 2)))
            (min (mu_very_high x) (1 / 2))"
    by blast
  show "min (mu_medium x) (1 / 2) \<le> price_aggregate 455 (78 / 100) (30 / 100) x"
    unfolding A by (rule max.coboundedI1, rule max.coboundedI1, rule max.cobounded2)
  show "min (mu_high x) (1 / 2) \<le> price_aggregate 455 (78 / 100) (30 / 100) x"
    unfolding A by (rule max.coboundedI1, rule max.cobounded2)
  show "min (mu_very_high x) (1 / 2) \<le> price_aggregate 455 (78 / 100) (30 / 100) x"
    unfolding A by (rule max.cobounded2)
qed

lemma aggregate_455_plateau:
  assumes "160000 \<le> x" "x \<le> 400000"
  shows "price_aggregate 455 (78 / 100) (30 / 100) x = 1 / 2"
proof -
  have "1 / 2 \<le> price_aggregate 455 (78 / 100) (30 / 100) x"
  proof -
    consider "x \<le> 180000" | "180000 < x" "x \<le> 238600" | "238600 < x" by linarith
    then show ?thesis
    proof cases
      case 1
      with assms have "1 / 2 \<le> mu_medium x" by (intro membership_ge_half) simp_all
      then show ?thesis using aggregate_455_ge_clipped(1) [of x] by simp
    next
      case 2
      then have "1 / 2 \<le> mu_high x" by (intro membership_ge_half) simp_all
      then show ?thesis using aggregate_455_ge_clipped(2) [of x] by simp
    next
      case 3
      with assms have "1 / 2 \<le> mu_very_high x" by (intro membership_ge_half) simp_all
      then show ?thesis using aggregate_455_ge_clipped(3) [of x] by simp
    qed
  qed
  with aggregate_455_le_half [of x] show ?thesis by simp
qed

lemma aggregate_455_right:
  assumes "401000 \<le> x0" "x0 \<le> x" "x \<le> x1"
  shows "min (mu_very_high x1) (1 / 2) \<le> price_aggregate 455 (78 / 100) (30 / 100) x"
    and "price_aggregate 455 (78 / 100) (30 / 100) x \<le> max (1 / 10000) (mu_very_high x0)"
proof -
  from price_aggregate_455 obtain s1 s2 where
    s: "s1 \<le> 1 / 10000" "s2 \<le> 1 / 10000" and
    A: "\<And>x. price_aggregate 455 (78 / 100) (30 / 100) x =
        max (max (max (max (max 0 (min (mu_very_low x) s1)) (min (mu_low x) s2))
                      (min (mu_medium x) (1 / 2)))
                 (min (mu_high x) (1 / 2)))
            (min (mu_very_high x) (1 / 2))"
    by blast
  have "mu_very_high x1 \<le> mu_very_high x"
    using assms by (intro membership_antimono) simp_all
  then show "min (mu_very_high x1) (1 / 2) \<le> price_aggregate 455 (78 / 100) (30 / 100) x"
    using aggregate_455_ge_clipped(3) [of x] by simp
  have me: "mu_medium x \<le> 1 / 10000"
  proof -
    have "mu_medium x \<le> mu_medium 401000"
      using assms by (intro membership_antimono) simp_all
    also have "\<dots> \<le> 1 / 10000"
      by (simp add: membership_slope3 power_divide field_simps)
    finally show ?thesis .
  qed
  have hi: "mu_high x \<le> 1 / 10000"
  proof -
    have "mu_high x \<le> mu_high 401000"
      using assms by (intro membership_antimono) simp_all
    also have "\<dots> \<le> 1 / 10000"
      by (simp add: membership_slope3 power_divide field_simps)
    finally show ?thesis .
  qed
  have vh: "mu_very_high x \<le> mu_very_high x0"
    using assms by (intro membership_antimono) simp_all
  show "price_aggregate 455 (78 / 100) (30 / 100) x \<le> max (1 / 10000) (mu_very_high x0)"
    unfolding A
  proof (rule max5_le)
    show "0 \<le> max (1 / 10000) (mu_very_high x0)" by (intro max.coboundedI1) simp
    show "min (mu_very_low x) s1 \<le> max (1 / 10000) (mu_very_high x0)"
      using s(1) by (intro min.coboundedI2 max.coboundedI1)
    show "min (mu_low x) s2 \<le> max (1 / 10000) (mu_very_high x0)"
      using s(2) by (intro min.coboundedI2 max.coboundedI1)
    show "min (mu_medium x) (1 / 2) \<le> max (1 / 10000) (mu_very_high x0)"
      using me by (intro min.coboundedI1 max.coboundedI1)
    show "min (mu_high x) (1 / 2) \<le> max (1 / 10000) (mu_very_high x0)"
      using hi by (intro min.coboundedI1 max.coboundedI1)
    show "min (mu_very_high x) (1 / 2) \<le> max (1 / 10000) (mu_very_high x0)"
      using vh by (intro min.coboundedI1 max.coboundedI2)
  qed
qed

lemma aggregate_455_left:
  assumes "x \<le> x1" "x1 \<le> 159000"
  shows "price_aggregate 455 (78 / 100) (30 / 100) x \<le>
         max (1 / 10000) (max (mu_medium x1) (max (mu_high x1) (mu_very_high x1)))"
proof -
  from price_aggregate_455 obtain s1 s2 where
    s: "s1 \<le> 1 / 10000" "s2 \<le> 1 / 10000" and
    A: "\<And>x. price_aggregate 455 (78 / 100) (30 / 100) x =
        max (max (max (max (max 0 (min (mu_very_low x) s1)) (min (mu_low x) s2))
                      (min (mu_medium x) (1 / 2)))
                 (min (mu_high x) (1 / 2)))
            (min (mu_very_high x) (1 / 2))"
    by blast
  have me: "mu_medium x \<le> mu_medium x1"
    using assms by (intro membership_antimono) simp_all
  have hi: "mu_high x \<le> mu_high x1"
    using assms by (intro membership_antimono) simp_all
  have vh: "mu_very_high x \<le> mu_very_high x1"
    using assms by (intro membership_antimono) simp_all
  let ?u = "max (1 / 10000) (max (mu_medium x1) (max (mu_high x1) (mu_very_high x1)))"
  show ?thesis
    unfolding A
  proof (rule max5_le)
    show "0 \<le> ?u" by (intro max.coboundedI1) simp
    show "min (mu_very_low x) s1 \<le> ?u"
      using s(1) by (intro min.coboundedI2 max.coboundedI1)
    show "min (mu_low x) s2 \<le> ?u"
      using s(2) by (intro min.coboundedI2 max.coboundedI1)
    show "min (mu_medium x) (1 / 2) \<le> ?u"
      using me by (intro min.coboundedI1 max.coboundedI2 max.coboundedI1)
    show "min (mu_high x) (1 / 2) \<le> ?u"
      using hi by (intro min.coboundedI1 max.coboundedI2 max.coboundedI1)
    show "min (mu_very_high x) (1 / 2) \<le> ?u"
      using vh by (intro min.coboundedI1 max.coboundedI2)
  qed
qed

lemma aggregate_455_nonneg: "0 \<le> price_aggregate 455 (78 / 100) (30 / 100) x"
  unfolding price_aggregate_def by (rule aggregate_at_nonneg)

subsection \<open>Weighted sums over segments of the price grid\<close>

lemma sum_linear:
  "m \<le> n \<Longrightarrow> (\<Sum>i = m..<n. c0 + c1 * real i) =
     real (n - m) * c0 + c1 * (real n * (real n - 1) - real m * (real m - 1)) / 2"
proof (induction n rule: dec_induct)
  case base
  then show ?case by simp
next
  case (step k)
  have "(\<Sum>i = m..<Suc k. c0 + c1 * real i) = (\<Sum>i = m..<k. c0 + c1 * real i) + (c0 + c1 * real k)"
    using step.hyps(1) by simp
  also have "\<dots> = real (k - m) * c0 + c1 * (real k * (real k - 1) - real m * (real m - 1)) / 2 +
      (c0 + c1 * real k)"
    by (simp only: step.IH)
  also have "\<dots> = real (Suc k - m) * c0 +
      c1 * (real (Suc k) * (real (Suc k) - 1) - real m * (real m - 1)) / 2"
    using step.hyps(1) by (simp add: Suc_diff_le field_simps)
  finally show ?case .
qed

lemma sum_weighted_le:
  fixes d a :: "nat \<Rightarrow> real"
  assumes "\<And>i. m \<le> i \<Longrightarrow> i < n \<Longrightarrow> d i * a i \<le> d i * k"
  shows "(\<Sum>i = m..<n. d i * a i) \<le> k * (\<Sum>i = m..<n. d i)"
proof -
  have "(\<Sum>i = m..<n. d i * a i) \<le> (\<Sum>i = m..<n. d i * k)"
    by (rule sum_mono) (simp add: assms)
  also have "\<dots> = k * (\<Sum>i = m..<n. d i)"
    by (simp add: sum_distrib_left mult.commute)
  finally show ?thesis .
qed

lemma sum_weighted_ge:
  fixes d a :: "nat \<Rightarrow> real"
  assumes "\<And>i. m \<le> i \<Longrightarrow> i < n \<Longrightarrow> d i * k \<le> d i * a i"
  shows "k * (\<Sum>i = m..<n. d i) \<le> (\<Sum>i = m..<n. d i * a i)"
proof -
  have "(\<Sum>i = m..<n. d i * k) \<le> (\<Sum>i = m..<n. d i * a i)"
    by (rule sum_mono) (simp add: assms)
  moreover have "(\<Sum>i = m..<n. d i * k) = k * (\<Sum>i = m..<n. d i)"
    by (simp add: sum_distrib_left mult.commute)
  ultimately show ?thesis by simp
qed

text \<open>Segments of the price grid, weighted by the distance \<open>c0 + 1000 * i\<close> to a bound.\<close>

lemma segment_nonneg_upper:
  fixes A :: "real \<Rightarrow> real"
  assumes mn: "m \<le> n" and d: "0 \<le> c0 + 1000 * real m"
      and A: "\<And>i. m \<le> i \<Longrightarrow> i < n \<Longrightarrow> A (20000 + real i * 1000) \<le> U"
  shows "(\<Sum>i = m..<n. (c0 + 1000 * real i) * A (20000 + real i * 1000)) \<le>
         U * (real (n - m) * c0 + 1000 * (real n * (real n - 1) - real m * (real m - 1)) / 2)"
proof -
  have "(\<Sum>i = m..<n. (c0 + 1000 * real i) * A (20000 + real i * 1000)) \<le>
        U * (\<Sum>i = m..<n. c0 + 1000 * real i)"
  proof (rule sum_weighted_le)
    fix i assume i: "m \<le> i" "i < n"
    then have "0 \<le> c0 + 1000 * real i" using d by simp
    then show "(c0 + 1000 * real i) * A (20000 + real i * 1000) \<le> (c0 + 1000 * real i) * U"
      using A [OF i] by (rule mult_left_mono [rotated])
  qed
  then show ?thesis by (simp only: sum_linear [OF mn])
qed

lemma segment_nonneg_lower:
  fixes A :: "real \<Rightarrow> real"
  assumes mn: "m \<le> n" and d: "0 \<le> c0 + 1000 * real m"
      and A: "\<And>i. m \<le> i \<Longrightarrow> i < n \<Longrightarrow> L \<le> A (20000 + real i * 1000)"
  shows "L * (real (n - m) * c0 + 1000 * (real n * (real n - 1) - real m * (real m - 1)) / 2) \<le>
         (\<Sum>i = m..<n. (c0 + 1000 * real i) * A (20000 + real i * 1000))"
proof -
  have "L * (\<Sum>i = m..<n. c0 + 1000 * real i) \<le>
        (\<Sum>i = m..<n. (c0 + 1000 * real i) * A (20000 + real i * 1000))"
  proof (rule sum_weighted_ge)
    fix i assume i: "m \<le> i" "i < n"
    then have "0 \<le> c0 + 1000 * real i" using d by simp
    then show "(c0 + 1000 * real i) * L \<le> (c0 + 1000 * real i) * A (20000 + real i * 1000)"
      using A [OF i] by (rule mult_left_mono [rotated])
  qed
  then show ?thesis by (simp only: sum_linear [OF mn])
qed

lemma segment_nonpos_upper:
  fixes A :: "real \<Rightarrow> real"
  assumes mn: "m \<le> n" and d: "c0 + 1000 * real n \<le> 1000"
      and A: "\<And>i. m \<le> i \<Longrightarrow> i < n \<Longrightarrow> L \<le> A (20000 + real i * 1000)"
  shows "(\<Sum>i = m..<n. (c0 + 1000 * real i) * A (20000 + real i * 1000)) \<le>
         L * (real (n - m) * c0 + 1000 * (real n * (real n - 1) - real m * (real m - 1)) / 2)"
proof -
  have "(\<Sum>i = m..<n. (c0 + 1000 * real i) * A (20000 + real i * 1000)) \<le>
        L * (\<Sum>i = m..<n. c0 + 1000 * real i)"
  proof (rule sum_weighted_le)
    fix i assume i: "m \<le> i" "i < n"
    then have "real i + 1 \<le> real n" by linarith
    then have "c0 + 1000 * real i \<le> 0" using d by simp
    then show "(c0 + 1000 * real i) * A (20000 + real i * 1000) \<le> (c0 + 1000 * real i) * L"
      using A [OF i] by (rule mult_left_mono_neg [rotated])
  qed
  then show ?thesis by (simp only: sum_linear [OF mn])
qed

lemma segment_nonpos_lower:
  fixes A :: "real \<Rightarrow> real"
  assumes mn: "m \<le> n" and d: "c0 + 1000 * real n \<le> 1000"
      and A: "\<And>i. m \<le> i \<Longrightarrow> i < n \<Longrightarrow> A (20000 + real i * 1000) \<le> U"
  shows "U * (real (n - m) * c0 + 1000 * (real n * (real n - 1) - real m * (real m - 1)) / 2) \<le>
         (\<Sum>i = m..<n. (c0 + 1000 * real i) * A (20000 + real i * 1000))"
proof -
  have "U * (\<Sum>i = m..<n. c0 + 1000 * real i) \<le>
        (\<Sum>i = m..<n. (c0 + 1000 * real i) * A (20000 + real i * 1000))"
  proof (rule sum_weighted_ge)
    fix i assume i: "m \<le> i" "i < n"
    then have "real i + 1 \<le> real n" by linarith
    then have "c0 + 1000 * real i \<le> 0" using d by simp
    then show "(c0 + 1000 * real i) * U \<le> (c0 + 1000 * real i) * A (20000 + real i * 1000)"
      using A [OF i] by (rule mult_left_mono_neg [rotated])
  qed
  then show ?thesis by (simp only: sum_linear [OF mn])
qed

lemma price_grid: "universe price_con = map (\<lambda>i. 20000 + real i * 1000) [0..<480]"
  by (simp add: price_con_value arange_def)

lemma sum_list_price_grid:
  "sum_list (map f (universe price_con)) = (\<Sum>i = 0..<480. f (20000 + real i * 1000))"
  by (simp add: price_grid comp_def interv_sum_list_conv_sum_set_nat)

lemma tail_values_455:
  "max (1 / 10000) (mu_very_high 401000) \<le> 301 / 625"
  "max (1 / 10000) (mu_very_high 421000) \<le> 999 / 5000"
  "max (1 / 10000) (mu_very_high 451000) \<le> 503 / 10000"
  "829 / 2500 \<le> min (mu_very_high 410000) (1 / 2)"
  "1047 / 5000 \<le> min (mu_very_high 420000) (1 / 2)"
  "41 / 500 \<le> min (mu_very_high 440000) (1 / 2)"
  "81 / 10000 \<le> min (mu_very_high 499000) (1 / 2)"
  "max (1 / 10000) (max (mu_medium 144000) (max (mu_high 144000) (mu_very_high 144000))) \<le> 19 / 2000"
  "max (1 / 10000) (max (mu_medium 159000) (max (mu_high 159000) (mu_very_high 159000))) \<le> 3609 / 10000"
  by (simp_all add: membership_slope3 power_divide field_simps)

lemma weighted_sum_455_upper:
  "(\<Sum>i = 0..<480. (- 280000 + 1000 * real i) *
      price_aggregate 455 (78 / 100) (30 / 100) (20000 + real i * 1000)) \<le> 0"
proof -
  let ?A = "price_aggregate 455 (78 / 100) (30 / 100)"
  let ?g = "\<lambda>i. (- 280000 + 1000 * real i) * ?A (20000 + real i * 1000)"
  have s0: "sum ?g {0..<140} \<le> 0"
    using segment_nonpos_upper [of 0 140 "- 280000" 0 ?A] aggregate_455_nonneg by simp
  have s1: "sum ?g {140..<280} \<le> - 4935000"
  proof -
    have "1 / 2 \<le> ?A (20000 + real i * 1000)" if "140 \<le> i" "i < 280" for i
    proof -
      from that have "140 \<le> real i" "real i \<le> 279" by simp_all
      then show ?thesis by (subst aggregate_455_plateau) simp_all
    qed
    from segment_nonpos_upper [of 140 280 "- 280000" "1 / 2" ?A, OF _ _ this]
    show ?thesis by simp
  qed
  have s2: "sum ?g {280..<381} \<le> 2525000"
  proof -
    have "?A (20000 + real i * 1000) \<le> 1 / 2" if "280 \<le> i" "i < 381" for i
      by (rule aggregate_455_le_half)
    from segment_nonneg_upper [of 280 381 "- 280000" ?A "1 / 2", OF _ _ this]
    show ?thesis by simp
  qed
  have s3: "sum ?g {381..<401} \<le> 1064336"
  proof -
    have "?A (20000 + real i * 1000) \<le> 301 / 625" if "381 \<le> i" "i < 401" for i
    proof -
      from that have "381 \<le> real i" by simp
      then have "?A (20000 + real i * 1000) \<le> max (1 / 10000) (mu_very_high 401000)"
        by (intro aggregate_455_right(2) [where ?x1.0 = "20000 + real i * 1000"]) simp_all
      then show ?thesis using tail_values_455(1) by (rule order_trans)
    qed
    from segment_nonneg_upper [of 381 401 "- 280000" ?A "301 / 625", OF _ _ this]
    show ?thesis by simp
  qed
  have s4: "sum ?g {401..<431} \<le> 812187"
  proof -
    have "?A (20000 + real i * 1000) \<le> 999 / 5000" if "401 \<le> i" "i < 431" for i
    proof -
      from that have "401 \<le> real i" by simp
      then have "?A (20000 + real i * 1000) \<le> max (1 / 10000) (mu_very_high 421000)"
        by (intro aggregate_455_right(2) [where ?x1.0 = "20000 + real i * 1000"]) simp_all
      then show ?thesis using tail_values_455(2) by (rule order_trans)
    qed
    from segment_nonneg_upper [of 401 431 "- 280000" ?A "999 / 5000", OF _ _ this]
    show ?thesis by simp
  qed
  have s5: "sum ?g {431..<480} \<le> 862645 / 2"
  proof -
    have "?A (20000 + real i * 1000) \<le> 503 / 10000" if "431 \<le> i" "i < 480" for i
    proof -
      from that have "431 \<le> real i" by simp
      then have "?A (20000 + real i * 1000) \<le> max (1 / 10000) (mu_very_high 451000)"
        by (intro aggregate_455_right(2) [where ?x1.0 = "20000 + real i * 1000"]) simp_all
      then show ?thesis using tail_values_455(3) by (rule order_trans)
    qed
    from segment_nonneg_upper [of 431 480 "- 280000" ?A "503 / 10000", OF _ _ this]
    show ?thesis by simp
  qed
  have "sum ?g {0..<480} =
        sum ?g {0..<140} + sum ?g {140..<280} + sum ?g {280..<381} + sum ?g {381..<401} +
        sum ?g {401..<431} + sum ?g {431..<480}"
    by (simp add: sum.atLeastLessThan_concat)
  with s0 s1 s2 s3 s4 s5 show ?thesis by linarith
qed

lemma weighted_sum_455_lower:
  "0 \<le> (\<Sum>i = 0..<480. (- 260000 + 1000 * real i) *
      price_aggregate 455 (78 / 100) (30 / 100) (20000 + real i * 1000))"
proof -
  let ?A = "price_aggregate 455 (78 / 100) (30 / 100)"
  let ?g = "\<lambda>i. (- 260000 + 1000 * real i) * ?A (20000 + real i * 1000)"
  have s0: "- 235125 \<le> sum ?g {0..<125}"
  proof -
    have "?A (20000 + real i * 1000) \<le> 19 / 2000" if "0 \<le> i" "i < 125" for i
    proof -
      from that have "real i \<le> 124" by simp
      then have "?A (20000 + real i * 1000) \<le>
          max (1 / 10000) (max (mu_medium 144000) (max (mu_high 144000) (mu_very_high 144000)))"
        by (intro aggregate_455_left) simp_all
      then show ?thesis using tail_values_455(8) by (rule order_trans)
    qed
    from segment_nonpos_lower [of 0 125 "- 260000" ?A "19 / 2000", OF _ _ this]
    show ?thesis by simp
  qed
  have s1: "- 692928 \<le> sum ?g {125..<140}"
  proof -
    have "?A (20000 + real i * 1000) \<le> 3609 / 10000" if "125 \<le> i" "i < 140" for i
    proof -
      from that have "real i \<le> 139" by simp
      then have "?A (20000 + real i * 1000) \<le>
          max (1 / 10000) (max (mu_medium 159000) (max (mu_high 159000) (mu_very_high 159000)))"
        by (intro aggregate_455_left) simp_all
      then show ?thesis using tail_values_455(9) by (rule order_trans)
    qed
    from segment_nonpos_lower [of 125 140 "- 260000" ?A "3609 / 10000", OF _ _ this]
    show ?thesis by simp
  qed
  have s2: "- 3630000 \<le> sum ?g {140..<260}"
  proof -
    have "?A (20000 + real i * 1000) \<le> 1 / 2" if "140 \<le> i" "i < 260" for i
      by (rule aggregate_455_le_half)
    from segment_nonpos_lower [of 140 260 "- 260000" ?A "1 / 2", OF _ _ this]
    show ?thesis by simp
  qed
  have s3: "3630000 \<le> sum ?g {260..<381}"
  proof -
    have "1 / 2 \<le> ?A (20000 + real i * 1000)" if "260 \<le> i" "i < 381" for i
    proof -
      from that have "260 \<le> real i" "real i \<le> 380" by simp_all
      then show ?thesis by (subst aggregate_455_plateau) simp_all
    qed
    from segment_nonneg_lower [of 260 381 "- 260000" "1 / 2" ?A, OF _ _ this]
    show ?thesis by simp
  qed
  have s4: "416158 \<le> sum ?g {381..<391}"
  proof -
    have "829 / 2500 \<le> ?A (20000 + real i * 1000)" if "381 \<le> i" "i < 391" for i
    proof -
      from that have "381 \<le> real i" "real i \<le> 390" by simp_all
      then have "min (mu_very_high 410000) (1 / 2) \<le> ?A (20000 + real i * 1000)"
        by (intro aggregate_455_right(1) [where ?x0.0 = 401000]) simp_all
      with tail_values_455(4) show ?thesis by (rule order_trans)
    qed
    from segment_nonneg_lower [of 381 391 "- 260000" "829 / 2500" ?A, OF _ _ this]
    show ?thesis by simp
  qed
  have s5: "283737 \<le> sum ?g {391..<401}"
  proof -
    have "1047 / 5000 \<le> ?A (20000 + real i * 1000)" if "391 \<le> i" "i < 401" for i
    proof -
      from that have "391 \<le> real i" "real i \<le> 400" by simp_all
      then have "min (mu_very_high 420000) (1 / 2) \<le> ?A (20000 + real i * 1000)"
        by (intro aggregate_455_right(1) [where ?x0.0 = 401000]) simp_all
      with tail_values_455(5) show ?thesis by (rule order_trans)
    qed
    from segment_nonneg_lower [of 391 401 "- 260000" "1047 / 5000" ?A, OF _ _ this]
    show ?thesis by simp
  qed
  have s6: "246820 \<le> sum ?g {401..<421}"
  proof -
    have "41 / 500 \<le> ?A (20000 + real i * 1000)" if "401 \<le> i" "i < 421" for i
    proof -
      from that have "401 \<le> real i" "real i \<le> 420" by simp_all
      then have "min (mu_very_high 440000) (1 / 2) \<le> ?A (20000 + real i * 1000)"
        by (intro aggregate_455_right(1) [where ?x0.0 = 401000]) simp_all
      with tail_values_455(6) show ?thesis by (rule order_trans)
    qed
    from segment_nonneg_lower [of 401 421 "- 260000" "41 / 500" ?A, OF _ _ this]
    show ?thesis by simp
  qed
  have s7: "90801 \<le> sum ?g {421..<480}"
  proof -
    have "81 / 10000 \<le> ?A (20000 + real i * 1000)" if "421 \<le> i" "i < 480" for i
    proof -
      from that have "421 \<le> real i" "real i \<le> 479" by simp_all
      then have "min (mu_very_high 499000) (1 / 2) \<le> ?A (20000 + real i * 1000)"
        by (intro aggregate_455_right(1) [where ?x0.0 = 401000]) simp_all
      with tail_values_455(7) show ?thesis by (rule order_trans)
    qed
    from segment_nonneg_lower [of 421 480 "- 260000" "81 / 10000" ?A, OF _ _ this]
    show ?thesis by simp
  qed
  have "sum ?g {0..<480} =
        sum ?g {0..<125} + sum ?g {125..<140} + sum ?g {140..<260} + sum ?g {260..<381} +
        sum ?g {381..<391} + sum ?g {391..<401} + sum ?g {401..<421} + sum ?g {421..<480}"
    by (simp add: sum.atLeastLessThan_concat)
  with s0 s1 s2 s3 s4 s5 s6 s7 show ?thesis by linarith
qed

lemma centroid_between:
  fixes x a :: "nat \<Rightarrow> real"
  assumes pos: "0 < (\<Sum>i = 0..<n. a i)"
      and lower: "0 \<le> (\<Sum>i = 0..<n. (x i - lo) * a i)"
      and upper: "(\<Sum>i = 0..<n. (x i - hi) * a i) \<le> 0"
  shows "lo \<le> (\<Sum>i = 0..<n. x i * a i) / (\<Sum>i = 0..<n. a i) \<and>
         (\<Sum>i = 0..<n. x i * a i) / (\<Sum>i = 0..<n. a i) \<le> hi"
proof -
  have split: "(\<Sum>i = 0..<n. (x i - c) * a i) =
        (\<Sum>i = 0..<n. x i * a i) - c * (\<Sum>i = 0..<n. a i)" for c
    by (simp add: left_diff_distrib sum_subtractf sum_distrib_left)
  from lower upper show ?thesis
    unfolding split using pos by (simp add: pos_le_divide_eq pos_divide_le_eq)
qed

lemma price_455_between:
  "\<exists>p. evaluate land_pricing_model (query 455 (78 / 100) (30 / 100)) = Inr p \<and>
       280000 \<le> p \<and> p \<le> 300000"
proof -
  let ?A = "price_aggregate 455 (78 / 100) (30 / 100)"
  let ?x = "\<lambda>i. 20000 + real i * 1000"
  let ?a = "\<lambda>i. ?A (?x i)"
  have "?a 140 \<le> (\<Sum>i = 0..<480. ?a i)"
  proof (rule member_le_sum)
    show "(140::nat) \<in> {0..<480}" by simp
    show "0 \<le> ?a i" for i by (rule aggregate_455_nonneg)
    show "finite {0..<480::nat}" by simp
  qed
  moreover have "?a 140 = 1 / 2"
    by (subst aggregate_455_plateau) simp_all
  ultimately have pos: "0 < (\<Sum>i = 0..<480. ?a i)" by simp
  have lower: "0 \<le> (\<Sum>i = 0..<480. (?x i - 280000) * ?a i)"
    using weighted_sum_455_lower by (simp add: algebra_simps)
  have upper: "(\<Sum>i = 0..<480. (?x i - 300000) * ?a i) \<le> 0"
    using weighted_sum_455_upper by (simp add: algebra_simps)
  have ev: "evaluate land_pricing_model (query 455 (78 / 100) (30 / 100)) =
        Inr ((\<Sum>i = 0..<480. ?x i * ?a i) / (\<Sum>i = 0..<480. ?a i))"
    using pos
    by (simp add: evaluate_model_aggregate_query defuzzify_def map2_mult_map sum_list_price_grid)
  from centroid_between [of ?a 480 ?x 280000 300000, OF pos lower upper] ev
  show ?thesis by blast
qed

subsection \<open>The fifth rule and the price\<close>

lemma fifth_rule:
  "antecedent (get_rules ! 4) =
     And (Term ''area'' ''very_large'') (And (Term ''dist_ave'' ''close'') (Term ''dist_bch'' ''close''))"
  "consequent (get_rules ! 4) = ''very_high''"
  by (simp_all add: get_rules_def)

lemma fifth_rule_455:
  "fire [area_ant, dist_ave_ant, dist_bch_ant] (query 455 (78 / 100) (30 / 100))
     (antecedent (get_rules ! 4)) = Inr (1 / 2)"
  unfolding fifth_rule fire.simps(2) fire_term_model degree_of_model degrees_455(6,7,8)
  by simp

text \<open>
  Claim C1, as stated, fails: for the query area = 455, dist_ave = 0.78, dist_bch = 0.30
  the antecedent of the fifth rule does not fire at strength 1.
\<close>

theorem fifth_rule_strength_counterexample:
  "fire [area_ant, dist_ave_ant, dist_bch_ant] (query 455 (78 / 100) (30 / 100))
     (antecedent (get_rules ! 4)) \<noteq> Inr 1"
  using fifth_rule_455 by simp

text \<open>
  Claim C1, amended. For the query area = 455, dist_ave = 0.78, dist_bch = 0.30 the
  antecedent of the fifth rule (area is very_large AND dist_ave is close AND dist_bch is
  close) fires at strength \<open>1/2\<close>: each of its three terms sits on a delimiting breakpoint
  of its category. The rule concludes very_high, whose bell center is
  \<open>P80 + (P100 - P80) / 2 = 319300\<close>. The query succeeds and its crisp price lies between
  280000 and 300000, more than 19 grid steps below that center.
\<close>

theorem query_455_fires_at_half:
  "fire [area_ant, dist_ave_ant, dist_bch_ant] (query 455 (78 / 100) (30 / 100))
     (antecedent (get_rules ! 4)) = Inr (1 / 2) \<and>
   antecedent (get_rules ! 4) =
     And (Term ''area'' ''very_large'') (And (Term ''dist_ave'' ''close'') (Term ''dist_bch'' ''close'')) \<and>
   consequent (get_rules ! 4) = ''very_high'' \<and>
   map_of (categories price_con) ''very_high'' =
     Some \<lparr>width = 80700, slope = 3,
           center = PriceConstants_P80 + (PriceConstants_P100 - PriceConstants_P80) / 2\<rparr> \<and>
   PriceConstants_P80 + (PriceConstants_P100 - PriceConstants_P80) / 2 = 319300 \<and>
   (\<exists>p. evaluate land_pricing_model (query 455 (78 / 100) (30 / 100)) = Inr p \<and>
        280000 \<le> p \<and> p \<le> 300000 \<and> 19 * PriceConstants_STEP < 319300 - p)"
proof -
  have c: "PriceConstants_P80 + (PriceConstants_P100 - PriceConstants_P80) / 2 = 319300"
    by (simp add: PriceConstants_defs)
  have m: "map_of (categories price_con) ''very_high'' =
     Some \<lparr>width = 80700, slope = 3,
           center = PriceConstants_P80 + (PriceConstants_P100 - PriceConstants_P80) / 2\<rparr>"
    unfolding c by (simp add: price_con_value)
  from price_455_between obtain p where
    p: "evaluate land_pricing_model (query 455 (78 / 100) (30 / 100)) = Inr p"
      "280000 \<le> p" "p \<le> 300000"
    by blast
  then have "19 * PriceConstants_STEP < 319300 - p"
    by (simp add: PriceConstants_STEP_def)
  with p fifth_rule_455 fifth_rule c m show ?thesis by blast
qed

end
